theory Spec2Isabelle
  imports Complex_Main "HOL-Library.AList"
begin

section \<open>Strings\<close>

text \<open>
  Python strings are modelled as \<open>string\<close> (lists of 8-bit characters), so the development
  speaks about ASCII documents. \<open>str.strip()\<close> removes the characters for which
  \<open>str.isspace()\<close> holds: among the ASCII characters these are the codes 9 to 13, 28 to 31
  and 32.
\<close>

definition is_space :: "char \<Rightarrow> bool" where
  "is_space c = (let n = (of_char c :: nat) in (9 \<le> n \<and> n \<le> 13) \<or> (28 \<le> n \<and> n \<le> 32))"

definition strip :: "string \<Rightarrow> string" where
  "strip s = rev (dropWhile is_space (rev (dropWhile is_space s)))"

text \<open>\<open>s.split(sep)\<close> for a one-character separator: always at least one field.\<close>

fun split :: "char \<Rightarrow> string \<Rightarrow> string list" where
  "split sep [] = [[]]"
| "split sep (c # cs) =
     (if c = sep then [] # split sep cs
      else (case split sep cs of
              [] \<Rightarrow> [[c]]
            | x # xs \<Rightarrow> (c # x) # xs))"

text \<open>\<open>s.lower()\<close> on ASCII letters.\<close>

definition lower_char :: "char \<Rightarrow> char" where
  "lower_char c = (let n = (of_char c :: nat) in if 65 \<le> n \<and> n \<le> 90 then char_of (n + 32) else c)"

definition lower :: "string \<Rightarrow> string" where
  "lower s = map lower_char s"

text \<open>\<open>str(n)\<close> for an integer, as an f-string prints it.\<close>

function str_nat :: "nat \<Rightarrow> string" where
  "str_nat n = (if n < 10 then [char_of (48 + n)] else str_nat (n div 10) @ [char_of (48 + n mod 10)])"
  by pat_completeness auto
termination
  by (relation "measure id") auto

definition str_int :: "int \<Rightarrow> string" where
  "str_int i = (if i < 0 then CHR ''-'' # str_nat (nat (- i)) else str_nat (nat i))"

section \<open>The parsed document (edi\_parser/models.py)\<close>

record ISAHeader =
  authorization_info :: string
  security_info :: string
  sender_id :: string
  receiver_id :: string
  isa_date :: string
  isa_time :: string
  isa_control_number :: string
  acknowledgment_requested :: string
  usage_indicator :: string

record GSHeader =
  functional_id_code :: string
  sender_code :: string
  receiver_code :: string
  gs_date :: string
  gs_time :: string
  gs_control_number :: string
  responsible_agency :: string
  version :: string

record BEGSegment =
  transaction_set_purpose :: string
  purchase_order_type :: string
  purchase_order_number :: string
  beg_date :: string

record REFSegment =
  reference_qualifier :: string
  reference_number :: string

record N1Loop =
  entity_identifier :: string
  name :: string
  identification_code_qualifier :: "string option"
  identification_code :: "string option"

record PO1LineItem =
  line_number :: string
  quantity :: string
  unit_of_measure :: string
  unit_price :: string
  product_id_qualifier :: string
  product_id :: string
  description :: "string option"

record CTTSegment =
  line_item_count :: string
  hash_total :: "string option"

record ParsedEDI850 =
  isa_header :: ISAHeader
  gs_header :: GSHeader
  beg_segment :: BEGSegment
  ref_segments :: "REFSegment list"
  n1_loops :: "N1Loop list"
  po1_line_items :: "PO1LineItem list"
  ctt_segment :: CTTSegment
  control_numbers :: "(string \<times> string) list"

text \<open>
  \<open>parse\<close> returns \<open>parsed_edi.model_dump()\<close>: nested dictionaries. The dictionaries of
  the sub-models are flat, with string keys and values that are a string or \<open>None\<close>; they
  are association lists, so a key can be absent (which the models above never produce) or
  present with the value \<open>None\<close>. The outer dictionary always has its eight keys and is a
  record.
\<close>

datatype pyval = PyNone | PyStr string

type_synonym pydict = "(string \<times> pyval) list"

definition dict_get :: "pydict \<Rightarrow> string \<Rightarrow> pyval \<Rightarrow> pyval" where
  \<comment> \<open>\<open>d.get(key, default)\<close>: the default is for an absent key only.\<close>
  "dict_get d key dflt = (case map_of d key of None \<Rightarrow> dflt | Some v \<Rightarrow> v)"

definition dump_opt :: "string option \<Rightarrow> pyval" where
  "dump_opt v = (case v of None \<Rightarrow> PyNone | Some s \<Rightarrow> PyStr s)"

record parsed_dict =
  d_isa_header :: pydict
  d_gs_header :: pydict
  d_beg_segment :: pydict
  d_ref_segments :: "pydict list"
  d_n1_loops :: "pydict list"
  d_po1_line_items :: "pydict list"
  d_ctt_segment :: pydict
  d_control_numbers :: pydict

definition dump_isa :: "ISAHeader \<Rightarrow> pydict" where
  "dump_isa h =
     [(''authorization_info'', PyStr (authorization_info h)),
      (''security_info'', PyStr (security_info h)),
      (''sender_id'', PyStr (sender_id h)),
      (''receiver_id'', PyStr (receiver_id h)),
      (''date'', PyStr (isa_date h)),
      (''time'', PyStr (isa_time h)),
      (''control_number'', PyStr (isa_control_number h)),
      (''acknowledgment_requested'', PyStr (acknowledgment_requested h)),
      (''usage_indicator'', PyStr (usage_indicator h))]"

definition dump_gs :: "GSHeader \<Rightarrow> pydict" where
  "dump_gs h =
     [(''functional_id_code'', PyStr (functional_id_code h)),
      (''sender_code'', PyStr (sender_code h)),
      (''receiver_code'', PyStr (receiver_code h)),
      (''date'', PyStr (gs_date h)),
      (''time'', PyStr (gs_time h)),
      (''control_number'', PyStr (gs_control_number h)),
      (''responsible_agency'', PyStr (responsible_agency h)),
      (''version'', PyStr (version h))]"

definition dump_beg :: "BEGSegment \<Rightarrow> pydict" where
  "dump_beg b =
     [(''transaction_set_purpose'', PyStr (transaction_set_purpose b)),
      (''purchase_order_type'', PyStr (purchase_order_type b)),
      (''purchase_order_number'', PyStr (purchase_order_number b)),
      (''date'', PyStr (beg_date b))]"

definition dump_ref :: "REFSegment \<Rightarrow> pydict" where
  "dump_ref r =
     [(''reference_qualifier'', PyStr (reference_qualifier r)),
      (''reference_number'', PyStr (reference_number r))]"

definition dump_n1 :: "N1Loop \<Rightarrow> pydict" where
  "dump_n1 n =
     [(''entity_identifier'', PyStr (entity_identifier n)),
      (''name'', PyStr (name n)),
      (''identification_code_qualifier'', dump_opt (identification_code_qualifier n)),
      (''identification_code'', dump_opt (identification_code n))]"

definition dump_po1 :: "PO1LineItem \<Rightarrow> pydict" where
  "dump_po1 l =
     [(''line_number'', PyStr (line_number l)),
      (''quantity'', PyStr (quantity l)),
      (''unit_of_measure'', PyStr (unit_of_measure l)),
      (''unit_price'', PyStr (unit_price l)),
      (''product_id_qualifier'', PyStr (product_id_qualifier l)),
      (''product_id'', PyStr (product_id l)),
      (''description'', dump_opt (description l))]"

definition dump_ctt :: "CTTSegment \<Rightarrow> pydict" where
  "dump_ctt c =
     [(''line_item_count'', PyStr (line_item_count c)),
      (''hash_total'', dump_opt (hash_total c))]"

definition model_dump :: "ParsedEDI850 \<Rightarrow> parsed_dict" where
  "model_dump p =
     \<lparr> d_isa_header = dump_isa (isa_header p),
       d_gs_header = dump_gs (gs_header p),
       d_beg_segment = dump_beg (beg_segment p),
       d_ref_segments = map dump_ref (ref_segments p),
       d_n1_loops = map dump_n1 (n1_loops p),
       d_po1_line_items = map dump_po1 (po1_line_items p),
       d_ctt_segment = dump_ctt (ctt_segment p),
       d_control_numbers = map (\<lambda>(k, v). (k, PyStr v)) (control_numbers p) \<rparr>"

section \<open>Exceptions\<close>

text \<open>
  Every exception carries the text that \<open>str(e)\<close> gives. The first three classes are raised
  by the repository's own code with a text it builds itself; the others are raised by the
  Python runtime and by pydantic.
\<close>

datatype pyexc =
    EDIParsingError string
  | TransformationError string
  | PyException string
  | ValueError string
  | TypeError string
  | AttributeError string
  | ValidationError string

fun str_exc :: "pyexc \<Rightarrow> string" where
  "str_exc (EDIParsingError m) = m"
| "str_exc (TransformationError m) = m"
| "str_exc (PyException m) = m"
| "str_exc (ValueError m) = m"
| "str_exc (TypeError m) = m"
| "str_exc (AttributeError m) = m"
| "str_exc (ValidationError m) = m"

section \<open>The parser (edi\_parser/parser.py)\<close>

type_synonym segment = "string list"

definition segment_delimiter :: char where "segment_delimiter = CHR ''~''"
definition element_delimiter :: char where "element_delimiter = CHR ''*''"

text \<open>\<open>_split_segments\<close>: the loop appends the elements of every segment that is not blank.\<close>

fun split_loop :: "string list \<Rightarrow> segment list" where
  "split_loop [] = []"
| "split_loop (seg_str # rest) =
     (let seg_str' = strip seg_str
      in if seg_str' \<noteq> [] then split element_delimiter seg_str' # split_loop rest
         else split_loop rest)"

definition split_segments :: "string \<Rightarrow> segment list" where
  "split_segments edi_content = split_loop (split segment_delimiter (strip edi_content))"

fun find_segment :: "segment list \<Rightarrow> string \<Rightarrow> segment option" where
  "find_segment [] segment_id = None"
| "find_segment (seg # rest) segment_id =
     (if seg \<noteq> [] \<and> hd seg = segment_id then Some seg else find_segment rest segment_id)"

definition find_all_segments :: "segment list \<Rightarrow> string \<Rightarrow> segment list" where
  "find_all_segments segments segment_id =
     filter (\<lambda>seg. seg \<noteq> [] \<and> hd seg = segment_id) segments"

definition parse_isa :: "segment list \<Rightarrow> pyexc + ISAHeader" where
  "parse_isa segments =
     (case find_segment segments ''ISA'' of
        None \<Rightarrow> Inl (EDIParsingError ''ISA segment not found or incomplete'')
      | Some isa \<Rightarrow>
          if isa = [] \<or> length isa < 17
          then Inl (EDIParsingError ''ISA segment not found or incomplete'')
          else Inr \<lparr> authorization_info = strip (isa ! 2),
                     security_info = strip (isa ! 4),
                     sender_id = strip (isa ! 6),
                     receiver_id = strip (isa ! 8),
                     isa_date = strip (isa ! 9),
                     isa_time = strip (isa ! 10),
                     isa_control_number = strip (isa ! 13),
                     acknowledgment_requested = strip (isa ! 14),
                     usage_indicator = strip (isa ! 15) \<rparr>)"

definition parse_gs :: "segment list \<Rightarrow> pyexc + GSHeader" where
  "parse_gs segments =
     (case find_segment segments ''GS'' of
        None \<Rightarrow> Inl (EDIParsingError ''GS segment not found or incomplete'')
      | Some gs \<Rightarrow>
          if gs = [] \<or> length gs < 9
          then Inl (EDIParsingError ''GS segment not found or incomplete'')
          else Inr \<lparr> functional_id_code = strip (gs ! 1),
                     sender_code = strip (gs ! 2),
                     receiver_code = strip (gs ! 3),
                     gs_date = strip (gs ! 4),
                     gs_time = strip (gs ! 5),
                     gs_control_number = strip (gs ! 6),
                     responsible_agency = strip (gs ! 7),
                     version = strip (gs ! 8) \<rparr>)"

definition parse_beg :: "segment list \<Rightarrow> pyexc + BEGSegment" where
  "parse_beg segments =
     (case find_segment segments ''BEG'' of
        None \<Rightarrow> Inl (EDIParsingError ''BEG segment not found or incomplete'')
      | Some beg \<Rightarrow>
          if beg = [] \<or> length beg < 6
          then Inl (EDIParsingError ''BEG segment not found or incomplete'')
          else Inr \<lparr> transaction_set_purpose = strip (beg ! 1),
                     purchase_order_type = strip (beg ! 2),
                     purchase_order_number = strip (beg ! 3),
                     beg_date = (if length beg > 5 then strip (beg ! 5) else '''') \<rparr>)"

fun ref_loop :: "segment list \<Rightarrow> REFSegment list" where
  "ref_loop [] = []"
| "ref_loop (ref # rest) =
     (if length ref \<ge> 3
      then \<lparr> reference_qualifier = strip (ref ! 1),
             reference_number = strip (ref ! 2) \<rparr> # ref_loop rest
      else ref_loop rest)"

definition parse_ref :: "segment list \<Rightarrow> REFSegment list" where
  "parse_ref segments = ref_loop (find_all_segments segments ''REF'')"

fun n1_loop :: "segment list \<Rightarrow> N1Loop list" where
  "n1_loop [] = []"
| "n1_loop (n1 # rest) =
     (if length n1 \<ge> 3
      then \<lparr> entity_identifier = strip (n1 ! 1),
             name = strip (n1 ! 2),
             identification_code_qualifier = (if length n1 > 3 then Some (strip (n1 ! 3)) else None),
             identification_code = (if length n1 > 4 then Some (strip (n1 ! 4)) else None) \<rparr>
           # n1_loop rest
      else n1_loop rest)"

definition parse_n1 :: "segment list \<Rightarrow> N1Loop list" where
  "parse_n1 segments = n1_loop (find_all_segments segments ''N1'')"

fun po1_loop :: "segment list \<Rightarrow> PO1LineItem list" where
  "po1_loop [] = []"
| "po1_loop (po1 # rest) =
     (if length po1 \<ge> 7
      then \<lparr> line_number = strip (po1 ! 1),
             quantity = strip (po1 ! 2),
             unit_of_measure = strip (po1 ! 3),
             unit_price = strip (po1 ! 4),
             product_id_qualifier = (if length po1 > 6 then strip (po1 ! 6) else ''''),
             product_id = (if length po1 > 7 then strip (po1 ! 7) else ''''),
             description = (if length po1 > 9 then Some (strip (po1 ! 9)) else None) \<rparr>
           # po1_loop rest
      else po1_loop rest)"

definition parse_po1 :: "segment list \<Rightarrow> PO1LineItem list" where
  "parse_po1 segments = po1_loop (find_all_segments segments ''PO1'')"

definition parse_ctt :: "segment list \<Rightarrow> pyexc + CTTSegment" where
  "parse_ctt segments =
     (case find_segment segments ''CTT'' of
        None \<Rightarrow> Inl (EDIParsingError ''CTT segment not found or incomplete'')
      | Some ctt \<Rightarrow>
          if ctt = [] \<or> length ctt < 2
          then Inl (EDIParsingError ''CTT segment not found or incomplete'')
          else Inr \<lparr> line_item_count = strip (ctt ! 1),
                     hash_total = (if length ctt > 2 then Some (strip (ctt ! 2)) else None) \<rparr>)"

text \<open>
  \<open>_parse_control_trailers\<close> fills a dictionary; the three trailers write distinct keys, so
  the dictionary is the list of the entries in the order they are written.
\<close>

definition trailer_entries :: "segment list \<Rightarrow> string \<Rightarrow> string \<Rightarrow> string \<Rightarrow> (string \<times> string) list" where
  "trailer_entries segments segment_id key1 key2 =
     (case find_segment segments segment_id of
        None \<Rightarrow> []
      | Some t \<Rightarrow> if t \<noteq> [] \<and> length t \<ge> 3
                  then [(key1, strip (t ! 1)), (key2, strip (t ! 2))] else [])"

definition parse_control_trailers :: "segment list \<Rightarrow> (string \<times> string) list" where
  "parse_control_trailers segments =
     trailer_entries segments ''SE'' ''se_segment_count'' ''se_control_number''
     @ trailer_entries segments ''GE'' ''ge_transaction_count'' ''ge_control_number''
     @ trailer_entries segments ''IEA'' ''iea_group_count'' ''iea_control_number''"

text \<open>
  The body of the \<open>try\<close> block of \<open>parse\<close>, after the split: the first exception ends it.
\<close>

definition parse_body :: "segment list \<Rightarrow> pyexc + parsed_dict" where
  "parse_body segments =
     (case parse_isa segments of Inl e \<Rightarrow> Inl e | Inr isa_header' \<Rightarrow>
     (case parse_gs segments of Inl e \<Rightarrow> Inl e | Inr gs_header' \<Rightarrow>
     (case parse_beg segments of Inl e \<Rightarrow> Inl e | Inr beg_segment' \<Rightarrow>
     (let ref_segments' = parse_ref segments;
          n1_loops' = parse_n1 segments;
          po1_line_items' = parse_po1 segments
      in (case parse_ctt segments of Inl e \<Rightarrow> Inl e | Inr ctt_segment' \<Rightarrow>
     (let control_numbers' = parse_control_trailers segments;
          parsed_edi = \<lparr> isa_header = isa_header',
                         gs_header = gs_header',
                         beg_segment = beg_segment',
                         ref_segments = ref_segments',
                         n1_loops = n1_loops',
                         po1_line_items = po1_line_items',
                         ctt_segment = ctt_segment',
                         control_numbers = control_numbers' \<rparr>
      in Inr (model_dump parsed_edi)))))))"

text \<open>\<open>parse\<close>: every exception of the body is raised again as an \<open>EDIParsingError\<close>.\<close>

definition parse_segments :: "segment list \<Rightarrow> pyexc + parsed_dict" where
  "parse_segments segments =
     (case parse_body segments of
        Inl e \<Rightarrow> Inl (EDIParsingError (''Failed to parse EDI 850: '' @ str_exc e))
      | Inr parsed_edi \<Rightarrow> Inr parsed_edi)"

definition parse :: "string \<Rightarrow> pyexc + parsed_dict" where
  "parse edi_content = parse_segments (split_segments edi_content)"

section \<open>Python numbers\<close>

text \<open>
  A Python \<open>float\<close> is a finite value, an infinity or a NaN. The two zeros are one value
  here; comparison, multiplication, addition and rounding do not tell them apart beyond
  the sign of a zero result. Comparisons are the IEEE ones (every comparison with a NaN is
  false). The arithmetic that rounds (\<open>float(s)\<close>, \<open>*\<close>, \<open>+\<close>, \<open>round(x, 2)\<close>) and
  \<open>int(s)\<close> are not defined here: they are taken from the runtime \<open>rt\<close>, and every theorem
  holds for every runtime. The runtime also gives the text of the exceptions that Python
  and pydantic raise.
\<close>

datatype pyfloat = Finite rat | PosInf | NegInf | NaN

fun float_le :: "pyfloat \<Rightarrow> pyfloat \<Rightarrow> bool" where
  "float_le (Finite a) (Finite b) = (a \<le> b)"
| "float_le (Finite a) PosInf = True"
| "float_le NegInf (Finite b) = True"
| "float_le NegInf NegInf = True"
| "float_le NegInf PosInf = True"
| "float_le PosInf PosInf = True"
| "float_le _ _ = False"

fun float_lt :: "pyfloat \<Rightarrow> pyfloat \<Rightarrow> bool" where
  "float_lt (Finite a) (Finite b) = (a < b)"
| "float_lt (Finite a) PosInf = True"
| "float_lt NegInf (Finite b) = True"
| "float_lt NegInf PosInf = True"
| "float_lt _ _ = False"

datatype pynum = PyInt int | PyFloat pyfloat

datatype fault =
    FloatOfStr string
  | FloatOfNone
  | IntOfStr string
  | IntOfNone
  | LenOfNone
  | LowerOfNone
  | InvalidModel string "string list"
  | NegativeSleep

record pyrt =
  float_of_str :: "string \<Rightarrow> pyfloat option"
  int_of_str :: "string \<Rightarrow> int option"
  float_mul :: "pyfloat \<Rightarrow> pyfloat \<Rightarrow> pyfloat"
  float_add :: "pyfloat \<Rightarrow> pyfloat \<Rightarrow> pyfloat"
  float_round2 :: "pyfloat \<Rightarrow> pyfloat"
  error_text :: "fault \<Rightarrow> string"

definition py_float :: "pyrt \<Rightarrow> pyval \<Rightarrow> pyexc + pyfloat" where
  "py_float rt v =
     (case v of
        PyNone \<Rightarrow> Inl (TypeError (error_text rt FloatOfNone))
      | PyStr s \<Rightarrow> (case float_of_str rt s of
                     None \<Rightarrow> Inl (ValueError (error_text rt (FloatOfStr s)))
                   | Some x \<Rightarrow> Inr x))"

definition py_int :: "pyrt \<Rightarrow> pyval \<Rightarrow> pyexc + int" where
  "py_int rt v =
     (case v of
        PyNone \<Rightarrow> Inl (TypeError (error_text rt IntOfNone))
      | PyStr s \<Rightarrow> (case int_of_str rt s of
                     None \<Rightarrow> Inl (ValueError (error_text rt (IntOfStr s)))
                   | Some i \<Rightarrow> Inr i))"

text \<open>
  \<open>sum(...)\<close> starts from the integer 0 and adds from the left; \<open>round(n, 2)\<close> of an
  integer is the integer. A pydantic \<open>float\<close> field turns an integer into a float (only the
  integer 0 occurs, so the conversion is exact).
\<close>

definition sum_step :: "pyrt \<Rightarrow> pynum \<Rightarrow> pyfloat \<Rightarrow> pynum" where
  "sum_step rt acc x =
     (case acc of
        PyInt n \<Rightarrow> PyFloat (float_add rt (Finite (of_int n)) x)
      | PyFloat a \<Rightarrow> PyFloat (float_add rt a x))"

definition py_sum :: "pyrt \<Rightarrow> pyfloat list \<Rightarrow> pynum" where
  "py_sum rt xs = foldl (sum_step rt) (PyInt 0) xs"

definition py_round2 :: "pyrt \<Rightarrow> pynum \<Rightarrow> pynum" where
  "py_round2 rt v = (case v of PyInt n \<Rightarrow> PyInt n | PyFloat x \<Rightarrow> PyFloat (float_round2 rt x))"

definition as_float :: "pynum \<Rightarrow> pyfloat" where
  "as_float v = (case v of PyInt n \<Rightarrow> Finite (of_int n) | PyFloat x \<Rightarrow> x)"

section \<open>The ERP payload (transformer/erp\_schema.py)\<close>

record ERPLineItem =
  li_line_number :: int
  sku :: string
  li_description :: "string option"
  li_quantity :: pyfloat
  li_unit_price :: pyfloat
  li_unit_of_measure :: string
  total_price :: pyfloat

record ERPVendor =
  vendor_id :: string
  vendor_name :: string

record ERPShipTo =
  location_id :: "string option"
  location_name :: string

record ERPPurchaseOrder =
  po_number :: string
  po_date :: string
  po_type :: string
  vendor :: ERPVendor
  ship_to :: ERPShipTo
  line_items :: "ERPLineItem list"
  total_amount :: pyfloat
  total_lines :: int
  reference_numbers :: "pydict option"

text \<open>
  Building a pydantic model validates the fields: a \<open>str\<close> field refuses \<open>None\<close>, an
  \<open>Optional[str]\<close> field takes it. One \<open>ValidationError\<close> reports all the refused fields.
\<close>

definition refused :: "(string \<times> pyval) list \<Rightarrow> string list" where
  "refused fs = map fst (filter (\<lambda>(f, v). v = PyNone) fs)"

definition the_str :: "pyval \<Rightarrow> string" where
  "the_str v = (case v of PyStr s \<Rightarrow> s | PyNone \<Rightarrow> [])"

definition the_opt :: "pyval \<Rightarrow> string option" where
  "the_opt v = (case v of PyStr s \<Rightarrow> Some s | PyNone \<Rightarrow> None)"

definition validation_error :: "pyrt \<Rightarrow> string \<Rightarrow> string list \<Rightarrow> pyexc" where
  "validation_error rt model fs = ValidationError (error_text rt (InvalidModel model fs))"

definition new_ERPVendor :: "pyrt \<Rightarrow> pyval \<Rightarrow> pyval \<Rightarrow> pyexc + ERPVendor" where
  "new_ERPVendor rt vid vname =
     (let bad = refused [(''vendor_id'', vid), (''vendor_name'', vname)]
      in if bad \<noteq> [] then Inl (validation_error rt ''ERPVendor'' bad)
         else Inr \<lparr> vendor_id = the_str vid, vendor_name = the_str vname \<rparr>)"

definition new_ERPShipTo :: "pyrt \<Rightarrow> pyval \<Rightarrow> pyval \<Rightarrow> pyexc + ERPShipTo" where
  "new_ERPShipTo rt lid lname =
     (let bad = refused [(''location_name'', lname)]
      in if bad \<noteq> [] then Inl (validation_error rt ''ERPShipTo'' bad)
         else Inr \<lparr> location_id = the_opt lid, location_name = the_str lname \<rparr>)"

definition new_ERPLineItem ::
  "pyrt \<Rightarrow> int \<Rightarrow> pyval \<Rightarrow> pyval \<Rightarrow> pyfloat \<Rightarrow> pyfloat \<Rightarrow> pyval \<Rightarrow> pyfloat \<Rightarrow> pyexc + ERPLineItem" where
  "new_ERPLineItem rt lnum sk descr qty price uom tot =
     (let bad = refused [(''sku'', sk), (''unit_of_measure'', uom)]
      in if bad \<noteq> [] then Inl (validation_error rt ''ERPLineItem'' bad)
         else Inr \<lparr> li_line_number = lnum, sku = the_str sk, li_description = the_opt descr,
                    li_quantity = qty, li_unit_price = price,
                    li_unit_of_measure = the_str uom, total_price = tot \<rparr>)"

section \<open>The mapper (transformer/mapper.py)\<close>

definition PO_TYPE_MAP :: "(string \<times> string) list" where
  "PO_TYPE_MAP =
     [(''NE'', ''New Order''), (''RE'', ''Reorder''), (''SA'', ''Stand Alone''),
      (''CN'', ''Confirmation''), (''RL'', ''Release'')]"

definition qualifier_map :: "(string \<times> string) list" where
  "qualifier_map =
     [(''DP'', ''department''), (''CO'', ''customer_order''), (''CR'', ''customer_reference''),
      (''PO'', ''previous_po''), (''VN'', ''vendor_order'')]"

fun extract_vendor :: "pyrt \<Rightarrow> pydict list \<Rightarrow> pyexc + ERPVendor" where
  "extract_vendor rt [] = Inr \<lparr> vendor_id = ''UNKNOWN'', vendor_name = ''Unknown Vendor'' \<rparr>"
| "extract_vendor rt (n1 # rest) =
     (if dict_get n1 ''entity_identifier'' PyNone = PyStr ''VN''
      then new_ERPVendor rt (dict_get n1 ''identification_code'' (PyStr ''UNKNOWN''))
                            (dict_get n1 ''name'' (PyStr ''Unknown Vendor''))
      else extract_vendor rt rest)"

fun extract_ship_to :: "pyrt \<Rightarrow> pydict list \<Rightarrow> pyexc + ERPShipTo" where
  "extract_ship_to rt [] = Inr \<lparr> location_id = None, location_name = ''Unknown Location'' \<rparr>"
| "extract_ship_to rt (n1 # rest) =
     (if dict_get n1 ''entity_identifier'' PyNone = PyStr ''ST''
      then new_ERPShipTo rt (dict_get n1 ''identification_code'' PyNone)
                            (dict_get n1 ''name'' (PyStr ''Unknown Location''))
      else extract_ship_to rt rest)"

text \<open>
  One round of the loop of \<open>_transform_line_items\<close>. \<open>float(po1.get("quantity", 0))\<close> and
  \<open>int(po1.get("line_number", 0))\<close> have the integer 0 as default, for an absent key.
\<close>

definition float_field :: "pyrt \<Rightarrow> pydict \<Rightarrow> string \<Rightarrow> pyexc + pyfloat" where
  "float_field rt d key = (case map_of d key of None \<Rightarrow> Inr (Finite 0) | Some v \<Rightarrow> py_float rt v)"

definition int_field :: "pyrt \<Rightarrow> pydict \<Rightarrow> string \<Rightarrow> pyexc + int" where
  "int_field rt d key = (case map_of d key of None \<Rightarrow> Inr 0 | Some v \<Rightarrow> py_int rt v)"

definition transform_line_item :: "pyrt \<Rightarrow> pydict \<Rightarrow> pyexc + ERPLineItem" where
  "transform_line_item rt po1 =
     (case float_field rt po1 ''quantity'' of Inl e \<Rightarrow> Inl e | Inr quantity' \<Rightarrow>
     (case float_field rt po1 ''unit_price'' of Inl e \<Rightarrow> Inl e | Inr unit_price' \<Rightarrow>
     (let total_price' = float_round2 rt (float_mul rt quantity' unit_price')
      in (case int_field rt po1 ''line_number'' of Inl e \<Rightarrow> Inl e | Inr line_number' \<Rightarrow>
          new_ERPLineItem rt line_number'
            (dict_get po1 ''product_id'' (PyStr []))
            (dict_get po1 ''description'' PyNone)
            quantity' unit_price'
            (dict_get po1 ''unit_of_measure'' (PyStr ''EA''))
            total_price'))))"

fun transform_line_items :: "pyrt \<Rightarrow> pydict list \<Rightarrow> pyexc + ERPLineItem list" where
  "transform_line_items rt [] = Inr []"
| "transform_line_items rt (po1 # rest) =
     (case transform_line_item rt po1 of Inl e \<Rightarrow> Inl e | Inr erp_item \<Rightarrow>
     (case transform_line_items rt rest of Inl e \<Rightarrow> Inl e | Inr erp_items \<Rightarrow>
        Inr (erp_item # erp_items)))"

definition calculate_total_amount :: "pyrt \<Rightarrow> ERPLineItem list \<Rightarrow> pynum" where
  "calculate_total_amount rt items = py_round2 rt (py_sum rt (map total_price items))"

text \<open>\<open>PO_TYPE_MAP.get(po_type_code, po_type_code)\<close>: \<open>None\<close> is a key like any other.\<close>

definition map_po_type :: "pyval \<Rightarrow> pyval" where
  "map_po_type po_type_code =
     (case po_type_code of
        PyNone \<Rightarrow> PyNone
      | PyStr c \<Rightarrow> (case map_of PO_TYPE_MAP c of None \<Rightarrow> PyStr c | Some l \<Rightarrow> PyStr l))"

definition format_date :: "pyrt \<Rightarrow> pyval \<Rightarrow> pyexc + string" where
  "format_date rt edi_date =
     (case edi_date of
        PyNone \<Rightarrow> Inl (TypeError (error_text rt LenOfNone))
      | PyStr d \<Rightarrow>
          if length d = 8
          then Inr (take 4 d @ ''-'' @ take 2 (drop 4 d) @ ''-'' @ take 2 (drop 6 d))
          else Inr d)"

text \<open>
  The loop of \<open>_build_reference_numbers\<close>: the argument \<open>qualifier.lower()\<close> is computed
  before the lookup, so a qualifier \<open>None\<close> raises. \<open>references[key] = number\<close> keeps the
  place of a key that is already there.
\<close>

fun reference_loop :: "pyrt \<Rightarrow> pydict list \<Rightarrow> pydict \<Rightarrow> pyexc + pydict" where
  "reference_loop rt [] references = Inr references"
| "reference_loop rt (ref # rest) references =
     (let qualifier = dict_get ref ''reference_qualifier'' (PyStr []);
          number = dict_get ref ''reference_number'' (PyStr [])
      in (case qualifier of
            PyNone \<Rightarrow> Inl (AttributeError (error_text rt LowerOfNone))
          | PyStr q \<Rightarrow>
              (let key = (case map_of qualifier_map q of None \<Rightarrow> lower q | Some n \<Rightarrow> n)
               in reference_loop rt rest (AList.update key number references))))"

definition build_reference_numbers :: "pyrt \<Rightarrow> pydict list \<Rightarrow> pyexc + pydict option" where
  "build_reference_numbers rt refs =
     (case reference_loop rt refs [] of
        Inl e \<Rightarrow> Inl e
      | Inr references \<Rightarrow> Inr (if references \<noteq> [] then Some references else None))"

definition new_ERPPurchaseOrder ::
  "pyrt \<Rightarrow> pyval \<Rightarrow> string \<Rightarrow> pyval \<Rightarrow> ERPVendor \<Rightarrow> ERPShipTo \<Rightarrow> ERPLineItem list \<Rightarrow> pynum
     \<Rightarrow> int \<Rightarrow> pydict option \<Rightarrow> pyexc + ERPPurchaseOrder" where
  "new_ERPPurchaseOrder rt num date' type' vendor' ship_to' items tot lines refs =
     (let bad = refused [(''po_number'', num), (''po_type'', type')]
      in if bad \<noteq> [] then Inl (validation_error rt ''ERPPurchaseOrder'' bad)
         else Inr \<lparr> po_number = the_str num, po_date = date', po_type = the_str type',
                    vendor = vendor', ship_to = ship_to', line_items = items,
                    total_amount = as_float tot, total_lines = lines,
                    reference_numbers = refs \<rparr>)"

text \<open>
  The body of the \<open>try\<close> block of \<open>transform\<close>. The result stands for \<open>erp_po.model_dump()\<close>,
  the dictionary with the fields of the model as keys.
\<close>

definition transform_body :: "pyrt \<Rightarrow> parsed_dict \<Rightarrow> pyexc + ERPPurchaseOrder" where
  "transform_body rt parsed_edi =
     (case extract_vendor rt (d_n1_loops parsed_edi) of Inl e \<Rightarrow> Inl e | Inr vendor' \<Rightarrow>
     (case extract_ship_to rt (d_n1_loops parsed_edi) of Inl e \<Rightarrow> Inl e | Inr ship_to' \<Rightarrow>
     (case transform_line_items rt (d_po1_line_items parsed_edi) of Inl e \<Rightarrow> Inl e | Inr line_items' \<Rightarrow>
     (let total_amount' = calculate_total_amount rt line_items';
          beg = d_beg_segment parsed_edi;
          po_type' = map_po_type (dict_get beg ''purchase_order_type'' (PyStr []))
      in (case build_reference_numbers rt (d_ref_segments parsed_edi) of Inl e \<Rightarrow> Inl e
          | Inr reference_numbers' \<Rightarrow>
     (case format_date rt (dict_get beg ''date'' (PyStr [])) of Inl e \<Rightarrow> Inl e | Inr po_date' \<Rightarrow>
        new_ERPPurchaseOrder rt
          (dict_get beg ''purchase_order_number'' (PyStr []))
          po_date' po_type' vendor' ship_to' line_items' total_amount'
          (int (length line_items')) reference_numbers'))))))"

definition transform :: "pyrt \<Rightarrow> parsed_dict \<Rightarrow> pyexc + ERPPurchaseOrder" where
  "transform rt parsed_edi =
     (case transform_body rt parsed_edi of
        Inl e \<Rightarrow> Inl (TransformationError (''Failed to transform EDI to ERP schema: '' @ str_exc e))
      | Inr erp_po \<Rightarrow> Inr erp_po)"

section \<open>The business rules (mock\_erp\_api/endpoints.py)\<close>

fun line_item_errors :: "nat \<Rightarrow> ERPLineItem list \<Rightarrow> string list" where
  "line_item_errors idx [] = []"
| "line_item_errors idx (item # rest) =
     (if float_le (li_quantity item) (Finite 0)
      then [''Line '' @ str_nat idx @ '': Quantity must be greater than zero''] else [])
     @ (if float_lt (li_unit_price item) (Finite 0)
        then [''Line '' @ str_nat idx @ '': Unit price cannot be negative''] else [])
     @ (if float_lt (total_price item) (Finite 0)
        then [''Line '' @ str_nat idx @ '': Total price cannot be negative''] else [])
     @ line_item_errors (Suc idx) rest"

definition validate_business_rules :: "ERPPurchaseOrder \<Rightarrow> string list" where
  "validate_business_rules payload =
     (if float_le (total_amount payload) (Finite 0)
      then [''Total amount must be greater than zero''] else [])
     @ (if total_lines payload < 1
        then [''Purchase order must contain at least one line item''] else [])
     @ (if int (length (line_items payload)) \<noteq> total_lines payload
        then [''Line items count mismatch: expected '' @ str_int (total_lines payload)
              @ '', got '' @ str_nat (length (line_items payload))] else [])
     @ line_item_errors 1 (line_items payload)
     @ (if vendor_name (vendor payload) = [] \<or> vendor_name (vendor payload) = ''Unknown Vendor''
        then [''Valid vendor information is required''] else [])
     @ (if location_name (ship_to payload) = [] \<or> location_name (ship_to payload) = ''Unknown Location''
        then [''Valid ship-to location is required''] else [])
     @ (if po_number payload = [] \<or> strip (po_number payload) = []
        then [''Purchase order number is required''] else [])"

section \<open>The orchestrator (processor/orchestrator.py)\<close>

text \<open>
  The execution record is the dictionary \<open>result\<close> of \<open>process_edi_file\<close>, with the entries
  of \<open>result["steps"]\<close> flattened into fields: \<open>parse_status\<close> is
  \<open>result["steps"]["parse"]["status"]\<close>, \<open>post_attempts\<close> is
  \<open>result["steps"]["post_to_erp"]["attempts"]\<close>, and so on. The job identifier and the
  timestamps are left out. \<open>slept\<close> is not part of the record: it lists the arguments of
  the calls of \<open>time.sleep\<close>, in order. The logger and the optional database service only
  write to the outside; they are taken to return normally and are not modelled.
\<close>

datatype step_status = Pending | Success | Failed

datatype 'r final = ErpResponse 'r | ValidationFailure string "string list"

record 'r run_state =
  success :: bool
  parse_status :: step_status
  parse_data :: "parsed_dict option"
  parse_error :: "string option"
  transform_status :: step_status
  transform_data :: "ERPPurchaseOrder option"
  transform_error :: "string option"
  validate_status :: step_status
  validate_errors :: "string list option"
  validate_error :: "string option"
  post_status :: step_status
  post_data :: "'r option"
  post_error :: "string option"
  post_attempts :: int
  final_result :: "'r final option"
  slept :: "rat list"

definition initial_state :: "'r run_state" where
  "initial_state =
     \<lparr> success = False,
       parse_status = Pending, parse_data = None, parse_error = None,
       transform_status = Pending, transform_data = None, transform_error = None,
       validate_status = Pending, validate_errors = None, validate_error = None,
       post_status = Pending, post_data = None, post_error = None, post_attempts = 0,
       final_result = None,
       slept = [] \<rparr>"

text \<open>
  The configuration of an orchestrator. The delay is an exact number: \<open>delay *= 2\<close> is
  exact on integers, and on floats as long as it does not overflow.
\<close>

record orchestrator =
  max_retries :: int
  retry_delay :: rat

text \<open>
  The downstream call: what the \<open>try\<close> block of the retry loop does at attempt \<open>k\<close> with the
  payload (building the model, \<open>create_purchase_order\<close>, turning the response into a
  dictionary). Its outcome is the environment's: a response, or an exception.
\<close>

type_synonym 'r endpoint = "int \<Rightarrow> ERPPurchaseOrder \<Rightarrow> pyexc + 'r"

definition py_sleep :: "pyrt \<Rightarrow> rat \<Rightarrow> rat list \<Rightarrow> pyexc + rat list" where
  \<comment> \<open>\<open>time.sleep(secs)\<close> raises a \<open>ValueError\<close> for a negative argument.\<close>
  "py_sleep rt secs trace =
     (if secs < 0 then Inl (ValueError (error_text rt NegativeSleep)) else Inr (trace @ [secs]))"

definition validate_payload :: "ERPPurchaseOrder \<Rightarrow> string list option" where
  "validate_payload erp_payload =
     (let errors = validate_business_rules erp_payload
      in if errors \<noteq> [] then Some errors else None)"

text \<open>
  The \<open>for\<close> loop of \<open>_post_to_erp_with_retry\<close> over the attempts that are left, with the
  local variables \<open>last_error\<close> and \<open>delay\<close>. The third component of the result is \<open>None\<close>
  when the loop has run to its end, the returned response when a call has succeeded, and
  the exception when \<open>time.sleep\<close> has raised inside the handler.
\<close>

fun retry_loop ::
  "pyrt \<Rightarrow> orchestrator \<Rightarrow> 'r endpoint \<Rightarrow> ERPPurchaseOrder \<Rightarrow> int list \<Rightarrow> pyexc option \<Rightarrow> rat
     \<Rightarrow> 'r run_state \<Rightarrow> 'r run_state \<times> pyexc option \<times> (pyexc + 'r) option" where
  "retry_loop rt self post erp_payload [] last_error delay st = (st, last_error, None)"
| "retry_loop rt self post erp_payload (attempt # rest) last_error delay st =
     (let st1 = st\<lparr> post_attempts := attempt \<rparr>
      in (case post attempt erp_payload of
            Inr response \<Rightarrow> (st1, last_error, Some (Inr response))
          | Inl e \<Rightarrow>
              if attempt < max_retries self
              then (case py_sleep rt delay (slept st1) of
                      Inl e' \<Rightarrow> (st1, Some e, Some (Inl e'))
                    | Inr trace \<Rightarrow>
                        retry_loop rt self post erp_payload rest (Some e) (delay * 2)
                          (st1\<lparr> slept := trace \<rparr>))
              else retry_loop rt self post erp_payload rest (Some e) delay st1))"

definition str_last_error :: "pyexc option \<Rightarrow> string" where
  "str_last_error last_error = (case last_error of None \<Rightarrow> ''None'' | Some e \<Rightarrow> str_exc e)"

definition post_to_erp_with_retry ::
  "pyrt \<Rightarrow> orchestrator \<Rightarrow> 'r endpoint \<Rightarrow> ERPPurchaseOrder \<Rightarrow> 'r run_state
     \<Rightarrow> 'r run_state \<times> (pyexc + 'r)" where
  "post_to_erp_with_retry rt self post erp_payload st =
     (case retry_loop rt self post erp_payload [1..max_retries self] None (retry_delay self) st of
        (st', last_error, Some outcome) \<Rightarrow> (st', outcome)
      | (st', last_error, None) \<Rightarrow>
          (let error_msg = ''All '' @ str_int (max_retries self)
                 @ '' retry attempts failed. Last error: '' @ str_last_error last_error
           in (st'\<lparr> post_status := Failed, post_error := Some error_msg \<rparr>,
               Inl (PyException error_msg))))"

text \<open>
  The body of the \<open>try\<close> block of \<open>process_edi_file\<close>: the state it leaves, and the exception
  that ended it, if any.
\<close>

definition try_body ::
  "pyrt \<Rightarrow> orchestrator \<Rightarrow> 'r endpoint \<Rightarrow> string \<Rightarrow> 'r run_state \<Rightarrow> 'r run_state \<times> pyexc option" where
  "try_body rt self post edi_content st =
     (case parse edi_content of Inl e \<Rightarrow> (st, Some e) | Inr parsed_data \<Rightarrow>
     (let st1 = st\<lparr> parse_status := Success, parse_data := Some parsed_data \<rparr>
      in (case transform rt parsed_data of Inl e \<Rightarrow> (st1, Some e) | Inr erp_payload \<Rightarrow>
     (let st2 = st1\<lparr> transform_status := Success, transform_data := Some erp_payload \<rparr>;
          validation_result = validate_payload erp_payload;
          st3 = st2\<lparr> validate_status := (if validation_result = None then Success else Failed),
                     validate_errors := validation_result \<rparr>
      in (case validation_result of
            Some errs \<Rightarrow>
              (let error_msg = ''Business rule validation failed: '' @ str_nat (length errs) @ '' errors''
               in (st3\<lparr> success := False,
                        final_result := Some (ValidationFailure error_msg errs) \<rparr>, None))
          | None \<Rightarrow>
              (case post_to_erp_with_retry rt self post erp_payload st3 of
                 (st4, Inl e) \<Rightarrow> (st4, Some e)
               | (st4, Inr erp_response) \<Rightarrow>
                   (st4\<lparr> post_status := Success, post_data := Some erp_response,
                          success := True, final_result := Some (ErpResponse erp_response) \<rparr>,
                    None)))))))"

text \<open>
  The last \<open>except\<close> clause: the first step that is still pending, in the order of the
  dictionary, is marked failed.
\<close>

definition mark_pending_failed :: "string \<Rightarrow> 'r run_state \<Rightarrow> 'r run_state" where
  "mark_pending_failed msg st =
     (if parse_status st = Pending then st\<lparr> parse_status := Failed, parse_error := Some msg \<rparr>
      else if transform_status st = Pending
        then st\<lparr> transform_status := Failed, transform_error := Some msg \<rparr>
      else if validate_status st = Pending
        then st\<lparr> validate_status := Failed, validate_error := Some msg \<rparr>
      else if post_status st = Pending
        then st\<lparr> post_status := Failed, post_error := Some msg \<rparr>
      else st)"

definition handle_exception :: "pyexc \<Rightarrow> 'r run_state \<Rightarrow> 'r run_state" where
  "handle_exception e st =
     (case e of
        EDIParsingError m \<Rightarrow> st\<lparr> parse_status := Failed, parse_error := Some (str_exc e) \<rparr>
      | TransformationError m \<Rightarrow> st\<lparr> transform_status := Failed, transform_error := Some (str_exc e) \<rparr>
      | _ \<Rightarrow> mark_pending_failed (str_exc e) st)"

definition process_edi_file ::
  "pyrt \<Rightarrow> orchestrator \<Rightarrow> 'r endpoint \<Rightarrow> string \<Rightarrow> 'r run_state" where
  "process_edi_file rt self post edi_content =
     (case try_body rt self post edi_content initial_state of
        (st, None) \<Rightarrow> st
      | (st, Some e) \<Rightarrow> handle_exception e st)"

section \<open>Notions of the specification\<close>

text \<open>
  The required segments and their minimum numbers of elements, in the order in which the
  specification says they are checked. A required segment is in order when the first
  segment with its identifier has at least that many elements.
\<close>

definition required_segments :: "(string \<times> nat) list" where
  "required_segments = [(''ISA'', 17), (''GS'', 9), (''BEG'', 6), (''CTT'', 2)]"

definition segment_ok :: "segment list \<Rightarrow> string \<Rightarrow> nat \<Rightarrow> bool" where
  "segment_ok segments segment_id arity =
     (case find_segment segments segment_id of None \<Rightarrow> False | Some seg \<Rightarrow> arity \<le> length seg)"

definition first_missing_required :: "segment list \<Rightarrow> string option" where
  "first_missing_required segments =
     map_option fst
       (find (\<lambda>(segment_id, arity). \<not> segment_ok segments segment_id arity) required_segments)"

definition missing_text :: "string \<Rightarrow> string" where
  "missing_text segment_id =
     ''Failed to parse EDI 850: '' @ segment_id @ '' segment not found or incomplete''"

text \<open>
  An occurrence of a repeatable segment that is shorter than its minimum arity: 3 elements
  for REF and N1, 7 for PO1.
\<close>

definition short_repeatable :: "segment \<Rightarrow> bool" where
  "short_repeatable seg =
     (seg \<noteq> [] \<and>
      ((hd seg = ''REF'' \<and> length seg < 3) \<or>
       (hd seg = ''N1'' \<and> length seg < 3) \<or>
       (hd seg = ''PO1'' \<and> length seg < 7)))"

definition occurrences :: "segment list \<Rightarrow> string \<Rightarrow> nat \<Rightarrow> segment list" where
  \<comment> \<open>the occurrences of a segment that have at least \<open>arity\<close> elements\<close>
  "occurrences segments segment_id arity =
     filter (\<lambda>seg. seg \<noteq> [] \<and> hd seg = segment_id \<and> arity \<le> length seg) segments"

text \<open>
  Rules 2 to 7 of the validator, as it checks them: a rule holds when its check reports
  nothing.
\<close>

definition rules_2_to_7 :: "ERPPurchaseOrder \<Rightarrow> bool" where
  "rules_2_to_7 payload =
     (1 \<le> total_lines payload
      \<and> int (length (line_items payload)) = total_lines payload
      \<and> (\<forall>item \<in> set (line_items payload).
            \<not> float_le (li_quantity item) (Finite 0)
            \<and> \<not> float_lt (li_unit_price item) (Finite 0)
            \<and> \<not> float_lt (total_price item) (Finite 0))
      \<and> vendor_name (vendor payload) \<noteq> [] \<and> vendor_name (vendor payload) \<noteq> ''Unknown Vendor''
      \<and> location_name (ship_to payload) \<noteq> []
      \<and> location_name (ship_to payload) \<noteq> ''Unknown Location''
      \<and> po_number payload \<noteq> [] \<and> strip (po_number payload) \<noteq> [])"

section \<open>A concrete run\<close>

text \<open>
  A runtime and a document on which the definitions are run. The runtime reads the
  numerals \<open>0\<close> and \<open>1\<close> and computes exactly on finite values, which agrees with Python on
  the small integers that occur in the runs. The document has one line item, whose PO1
  segment has exactly seven elements.
\<close>

definition sample_rt :: pyrt where
  "sample_rt =
     \<lparr> float_of_str = (\<lambda>s. if s = ''0'' then Some (Finite 0)
                            else if s = ''1'' then Some (Finite 1) else None),
       int_of_str = (\<lambda>s. if s = ''0'' then Some 0 else if s = ''1'' then Some 1 else None),
       float_mul = (\<lambda>a b. case (a, b) of (Finite x, Finite y) \<Rightarrow> Finite (x * y) | _ \<Rightarrow> NaN),
       float_add = (\<lambda>a b. case (a, b) of (Finite x, Finite y) \<Rightarrow> Finite (x + y) | _ \<Rightarrow> NaN),
       float_round2 = (\<lambda>a. a),
       error_text = (\<lambda>f. ''error'') \<rparr>"

definition sample_document :: string where
  "sample_document =
     ''ISA*a*b*c*d*e*f*g*h*i*j*k*l*m*n*o*p~GS*PO*s*r*d*t*1*X*v~BEG*00*NE*PO9**20240115~''
     @ ''N1*VN*Acme*92*V1~N1*ST*Dock*92*S1~PO1*1*1*EA*1**VP~CTT*1~''"

definition sample_parsed :: parsed_dict where
  "sample_parsed =
     \<lparr> d_isa_header =
         [(''authorization_info'', PyStr ''b''), (''security_info'', PyStr ''d''),
          (''sender_id'', PyStr ''f''), (''receiver_id'', PyStr ''h''),
          (''date'', PyStr ''i''), (''time'', PyStr ''j''),
          (''control_number'', PyStr ''m''), (''acknowledgment_requested'', PyStr ''n''),
          (''usage_indicator'', PyStr ''o'')],
       d_gs_header =
         [(''functional_id_code'', PyStr ''PO''), (''sender_code'', PyStr ''s''),
          (''receiver_code'', PyStr ''r''), (''date'', PyStr ''d''), (''time'', PyStr ''t''),
          (''control_number'', PyStr ''1''), (''responsible_agency'', PyStr ''X''),
          (''version'', PyStr ''v'')],
       d_beg_segment =
         [(''transaction_set_purpose'', PyStr ''00''), (''purchase_order_type'', PyStr ''NE''),
          (''purchase_order_number'', PyStr ''PO9''), (''date'', PyStr ''20240115'')],
       d_ref_segments = [],
       d_n1_loops =
         [[(''entity_identifier'', PyStr ''VN''), (''name'', PyStr ''Acme''),
           (''identification_code_qualifier'', PyStr ''92''),
           (''identification_code'', PyStr ''V1'')],
          [(''entity_identifier'', PyStr ''ST''), (''name'', PyStr ''Dock''),
           (''identification_code_qualifier'', PyStr ''92''),
           (''identification_code'', PyStr ''S1'')]],
       d_po1_line_items =
         [[(''line_number'', PyStr ''1''), (''quantity'', PyStr ''1''),
           (''unit_of_measure'', PyStr ''EA''), (''unit_price'', PyStr ''1''),
           (''product_id_qualifier'', PyStr ''VP''), (''product_id'', PyStr []),
           (''description'', PyNone)]],
       d_ctt_segment = [(''line_item_count'', PyStr ''1''), (''hash_total'', PyNone)],
       d_control_numbers = [] \<rparr>"

definition sample_payload :: ERPPurchaseOrder where
  "sample_payload =
     \<lparr> po_number = ''PO9'', po_date = ''2024-01-15'', po_type = ''New Order'',
       vendor = \<lparr> vendor_id = ''V1'', vendor_name = ''Acme'' \<rparr>,
       ship_to = \<lparr> location_id = Some ''S1'', location_name = ''Dock'' \<rparr>,
       line_items =
         [\<lparr> li_line_number = 1, sku = [], li_description = None, li_quantity = Finite 1,
            li_unit_price = Finite 1, li_unit_of_measure = ''EA'', total_price = Finite 1 \<rparr>],
       total_amount = Finite 1, total_lines = 1, reference_numbers = None \<rparr>"

section \<open>The parser fails fast\<close>

lemma parse_isa_ok: "segment_ok segs ''ISA'' 17 \<Longrightarrow> \<exists>h. parse_isa segs = Inr h"
  by (auto simp: parse_isa_def segment_ok_def split: option.splits)

lemma parse_isa_bad:
  "\<not> segment_ok segs ''ISA'' 17 \<Longrightarrow>
   parse_isa segs = Inl (EDIParsingError ''ISA segment not found or incomplete'')"
  by (auto simp: parse_isa_def segment_ok_def split: option.splits)

lemma parse_gs_ok: "segment_ok segs ''GS'' 9 \<Longrightarrow> \<exists>h. parse_gs segs = Inr h"
  by (auto simp: parse_gs_def segment_ok_def split: option.splits)

lemma parse_gs_bad:
  "\<not> segment_ok segs ''GS'' 9 \<Longrightarrow>
   parse_gs segs = Inl (EDIParsingError ''GS segment not found or incomplete'')"
  by (auto simp: parse_gs_def segment_ok_def split: option.splits)

lemma parse_beg_ok: "segment_ok segs ''BEG'' 6 \<Longrightarrow> \<exists>h. parse_beg segs = Inr h"
  by (auto simp: parse_beg_def segment_ok_def split: option.splits)

lemma parse_beg_bad:
  "\<not> segment_ok segs ''BEG'' 6 \<Longrightarrow>
   parse_beg segs = Inl (EDIParsingError ''BEG segment not found or incomplete'')"
  by (auto simp: parse_beg_def segment_ok_def split: option.splits)

lemma parse_ctt_ok: "segment_ok segs ''CTT'' 2 \<Longrightarrow> \<exists>h. parse_ctt segs = Inr h"
  by (auto simp: parse_ctt_def segment_ok_def split: option.splits)

lemma parse_ctt_bad:
  "\<not> segment_ok segs ''CTT'' 2 \<Longrightarrow>
   parse_ctt segs = Inl (EDIParsingError ''CTT segment not found or incomplete'')"
  by (auto simp: parse_ctt_def segment_ok_def split: option.splits)

lemma parse_segments_fail_fast:
  "(case first_missing_required segs of
      None \<Rightarrow> (\<exists>p. parse_segments segs = Inr (model_dump p))
    | Some sid \<Rightarrow> parse_segments segs = Inl (EDIParsingError (missing_text sid)))"
proof (cases "segment_ok segs ''ISA'' 17")
  case False
  then show ?thesis
    by (simp add: first_missing_required_def required_segments_def parse_segments_def
        parse_body_def parse_isa_bad missing_text_def)
next
  case isa: True
  then obtain i where i: "parse_isa segs = Inr i" using parse_isa_ok by blast
  show ?thesis
  proof (cases "segment_ok segs ''GS'' 9")
    case False
    then show ?thesis using isa i
      by (simp add: first_missing_required_def required_segments_def parse_segments_def
          parse_body_def parse_gs_bad missing_text_def)
  next
    case gs: True
    then obtain g where g: "parse_gs segs = Inr g" using parse_gs_ok by blast
    show ?thesis
    proof (cases "segment_ok segs ''BEG'' 6")
      case False
      then show ?thesis using isa i gs g
        by (simp add: first_missing_required_def required_segments_def parse_segments_def
            parse_body_def parse_beg_bad missing_text_def)
    next
      case beg: True
      then obtain b where b: "parse_beg segs = Inr b" using parse_beg_ok by blast
      show ?thesis
      proof (cases "segment_ok segs ''CTT'' 2")
        case False
        then show ?thesis using isa i gs g beg b
          by (simp add: first_missing_required_def required_segments_def parse_segments_def
              parse_body_def parse_ctt_bad missing_text_def)
      next
        case ctt: True
        then obtain c where c: "parse_ctt segs = Inr c" using parse_ctt_ok by blast
        show ?thesis using isa i gs g beg b ctt c
          by (auto simp: first_missing_required_def required_segments_def parse_segments_def
              parse_body_def missing_text_def)
      qed
    qed
  qed
qed

lemma no_beg_not_ok: "find_segment segs ''BEG'' = None \<Longrightarrow> \<not> segment_ok segs ''BEG'' 6"
  by (simp add: segment_ok_def)

lemma no_beg_first_missing:
  assumes "find_segment segs ''BEG'' = None"
  shows "first_missing_required segs \<noteq> None"
    and "segment_ok segs ''ISA'' 17 \<Longrightarrow> segment_ok segs ''GS'' 9 \<Longrightarrow>
         first_missing_required segs = Some ''BEG''"
  using no_beg_not_ok[OF assms]
  by (auto simp: first_missing_required_def required_segments_def)

text \<open>
  Claim C2. For every input string, \<open>parse\<close> either returns the dictionary of a complete
  parsed document, or fails with the error that names the first required segment that is
  missing or too short, in the order ISA, GS, BEG, CTT. A document without a BEG segment
  never yields a result, and the error names BEG as soon as the two segments checked
  before it are in order.
\<close>

theorem parse_fails_fast:
  "(case first_missing_required (split_segments edi_content) of
      None \<Rightarrow> (\<exists>p. parse edi_content = Inr (model_dump p))
    | Some sid \<Rightarrow> parse edi_content = Inl (EDIParsingError (missing_text sid)))
   \<and> (find_segment (split_segments edi_content) ''BEG'' = None \<longrightarrow>
        (\<forall>d. parse edi_content \<noteq> Inr d)
        \<and> (segment_ok (split_segments edi_content) ''ISA'' 17
             \<and> segment_ok (split_segments edi_content) ''GS'' 9 \<longrightarrow>
           parse edi_content
             = Inl (EDIParsingError
                     ''Failed to parse EDI 850: BEG segment not found or incomplete'')))"
proof -
  let ?segs = "split_segments edi_content"
  note ff = parse_segments_fail_fast[of ?segs]
  have first: "(case first_missing_required ?segs of
      None \<Rightarrow> (\<exists>p. parse edi_content = Inr (model_dump p))
    | Some sid \<Rightarrow> parse edi_content = Inl (EDIParsingError (missing_text sid)))"
    unfolding parse_def by (rule ff)
  have second: "(\<forall>d. parse edi_content \<noteq> Inr d)
        \<and> (segment_ok ?segs ''ISA'' 17 \<and> segment_ok ?segs ''GS'' 9 \<longrightarrow>
           parse edi_content
             = Inl (EDIParsingError
                     ''Failed to parse EDI 850: BEG segment not found or incomplete''))"
    if nb: "find_segment ?segs ''BEG'' = None"
  proof -
    obtain sid where sid: "first_missing_required ?segs = Some sid"
      using no_beg_first_missing(1)[OF nb] by auto
    then have fails: "parse edi_content = Inl (EDIParsingError (missing_text sid))"
      using first by simp
    show ?thesis
    proof (intro conjI impI)
      show "\<forall>d. parse edi_content \<noteq> Inr d" using fails by simp
    next
      assume "segment_ok ?segs ''ISA'' 17 \<and> segment_ok ?segs ''GS'' 9"
      then have "first_missing_required ?segs = Some ''BEG''"
        using no_beg_first_missing(2)[OF nb] by simp
      then show "parse edi_content
             = Inl (EDIParsingError
                     ''Failed to parse EDI 850: BEG segment not found or incomplete'')"
        using first by (simp add: missing_text_def)
    qed
  qed
  show ?thesis using first second by blast
qed

theorem parse_fails_fast_witness:
  "find_segment
     (split_segments ''ISA*a*b*c*d*e*f*g*h*i*j*k*l*m*n*o*p~GS*PO*s*r*d*t*1*X*v~CTT*1~'') ''BEG''
     = None
   \<and> parse ''ISA*a*b*c*d*e*f*g*h*i*j*k*l*m*n*o*p~GS*PO*s*r*d*t*1*X*v~CTT*1~''
       = Inl (EDIParsingError ''Failed to parse EDI 850: BEG segment not found or incomplete'')"
proof -
  let ?doc = "''ISA*a*b*c*d*e*f*g*h*i*j*k*l*m*n*o*p~GS*PO*s*r*d*t*1*X*v~CTT*1~''"
  have nb: "find_segment (split_segments ?doc) ''BEG'' = None"
    by code_simp
  have isa: "segment_ok (split_segments ?doc) ''ISA'' 17"
    by code_simp
  have gs: "segment_ok (split_segments ?doc) ''GS'' 9"
    by code_simp
  from parse_fails_fast[of ?doc] nb isa gs show ?thesis
    by blast
qed

section \<open>Short occurrences of repeatable segments\<close>

lemma find_segment_filter:
  assumes "\<And>seg. seg \<noteq> [] \<Longrightarrow> hd seg = sid \<Longrightarrow> P seg"
  shows "find_segment (filter P segs) sid = find_segment segs sid"
  using assms by (induction segs) auto

lemma short_repeatable_hd:
  "short_repeatable seg \<Longrightarrow> hd seg = ''REF'' \<or> hd seg = ''N1'' \<or> hd seg = ''PO1''"
  by (auto simp: short_repeatable_def)

lemma find_segment_drop_short:
  assumes "sid \<noteq> ''REF''" "sid \<noteq> ''N1''" "sid \<noteq> ''PO1''"
  shows "find_segment (filter (\<lambda>seg. \<not> short_repeatable seg) segs) sid = find_segment segs sid"
  by (rule find_segment_filter) (use assms short_repeatable_hd in blast)

lemma ref_loop_occurrences:
  "length (ref_loop (find_all_segments segs ''REF'')) = length (occurrences segs ''REF'' 3)"
  by (induction segs) (auto simp: find_all_segments_def occurrences_def)

lemma n1_loop_occurrences:
  "length (n1_loop (find_all_segments segs ''N1'')) = length (occurrences segs ''N1'' 3)"
  by (induction segs) (auto simp: find_all_segments_def occurrences_def)

lemma po1_loop_occurrences:
  "length (po1_loop (find_all_segments segs ''PO1'')) = length (occurrences segs ''PO1'' 7)"
  by (induction segs) (auto simp: find_all_segments_def occurrences_def)

lemma ref_loop_drop_short:
  "ref_loop (find_all_segments (filter (\<lambda>seg. \<not> short_repeatable seg) segs) ''REF'')
   = ref_loop (find_all_segments segs ''REF'')"
  by (induction segs) (auto simp: find_all_segments_def short_repeatable_def)

lemma n1_loop_drop_short:
  "n1_loop (find_all_segments (filter (\<lambda>seg. \<not> short_repeatable seg) segs) ''N1'')
   = n1_loop (find_all_segments segs ''N1'')"
  by (induction segs) (auto simp: find_all_segments_def short_repeatable_def)

lemma po1_loop_drop_short:
  "po1_loop (find_all_segments (filter (\<lambda>seg. \<not> short_repeatable seg) segs) ''PO1'')
   = po1_loop (find_all_segments segs ''PO1'')"
  by (induction segs) (auto simp: find_all_segments_def short_repeatable_def)

lemma parse_parts_drop_short:
  "parse_isa (filter (\<lambda>seg. \<not> short_repeatable seg) segs) = parse_isa segs"
  "parse_gs (filter (\<lambda>seg. \<not> short_repeatable seg) segs) = parse_gs segs"
  "parse_beg (filter (\<lambda>seg. \<not> short_repeatable seg) segs) = parse_beg segs"
  "parse_ctt (filter (\<lambda>seg. \<not> short_repeatable seg) segs) = parse_ctt segs"
  "parse_control_trailers (filter (\<lambda>seg. \<not> short_repeatable seg) segs)
     = parse_control_trailers segs"
  "parse_ref (filter (\<lambda>seg. \<not> short_repeatable seg) segs) = parse_ref segs"
  "parse_n1 (filter (\<lambda>seg. \<not> short_repeatable seg) segs) = parse_n1 segs"
  "parse_po1 (filter (\<lambda>seg. \<not> short_repeatable seg) segs) = parse_po1 segs"
  by (simp_all add: parse_isa_def parse_gs_def parse_beg_def parse_ctt_def
      parse_control_trailers_def trailer_entries_def find_segment_drop_short
      parse_ref_def parse_n1_def parse_po1_def
      ref_loop_drop_short n1_loop_drop_short po1_loop_drop_short)

lemma parse_segments_drop_short:
  "parse_segments (filter (\<lambda>seg. \<not> short_repeatable seg) segs) = parse_segments segs"
  unfolding parse_segments_def parse_body_def parse_parts_drop_short
  by (rule refl)

lemma parse_segments_lists:
  assumes "parse_segments segs = Inr d"
  shows "d_ref_segments d = map dump_ref (parse_ref segs)"
    and "d_n1_loops d = map dump_n1 (parse_n1 segs)"
    and "d_po1_line_items d = map dump_po1 (parse_po1 segs)"
  using assms
  by (auto simp: parse_segments_def parse_body_def model_dump_def Let_def split: sum.splits)

text \<open>
  Claim C8. An occurrence of REF, N1 or PO1 with fewer than 3, 3 or 7 elements changes
  nothing: the parser gives the same result, failure included, as on the document without
  these occurrences, and the three lists of a parsed document have one entry for each
  occurrence that is long enough.
\<close>

theorem short_occurrences_skipped:
  "parse edi_content
     = parse_segments (filter (\<lambda>seg. \<not> short_repeatable seg) (split_segments edi_content))
   \<and> (\<forall>d. parse edi_content = Inr d \<longrightarrow>
          length (d_ref_segments d) = length (occurrences (split_segments edi_content) ''REF'' 3)
        \<and> length (d_n1_loops d) = length (occurrences (split_segments edi_content) ''N1'' 3)
        \<and> length (d_po1_line_items d)
            = length (occurrences (split_segments edi_content) ''PO1'' 7))"
proof (intro conjI allI impI)
  show "parse edi_content
     = parse_segments (filter (\<lambda>seg. \<not> short_repeatable seg) (split_segments edi_content))"
    by (simp add: parse_def parse_segments_drop_short)
next
  fix d assume "parse edi_content = Inr d"
  then have d: "parse_segments (split_segments edi_content) = Inr d"
    by (simp add: parse_def)
  note lists = parse_segments_lists[OF d]
  show "length (d_ref_segments d) = length (occurrences (split_segments edi_content) ''REF'' 3)"
    by (simp add: lists parse_ref_def ref_loop_occurrences)
  show "length (d_n1_loops d) = length (occurrences (split_segments edi_content) ''N1'' 3)"
    by (simp add: lists parse_n1_def n1_loop_occurrences)
  show "length (d_po1_line_items d)
            = length (occurrences (split_segments edi_content) ''PO1'' 7)"
    by (simp add: lists parse_po1_def po1_loop_occurrences)
qed

theorem short_occurrences_skipped_witness:
  "parse (sample_document @ ''REF*DP~N1*VN~PO1*2*1*EA*1~'') = Inr sample_parsed
   \<and> length (d_ref_segments sample_parsed) = 0
   \<and> length (d_n1_loops sample_parsed) = 2
   \<and> length (d_po1_line_items sample_parsed) = 1"
proof -
  let ?doc = "sample_document @ ''REF*DP~N1*VN~PO1*2*1*EA*1~''"
  have p: "parse ?doc = Inr sample_parsed"
    by code_simp
  have occ: "length (occurrences (split_segments ?doc) ''REF'' 3) = 0"
    "length (occurrences (split_segments ?doc) ''N1'' 3) = 2"
    "length (occurrences (split_segments ?doc) ''PO1'' 7) = 1"
    by code_simp+
  from short_occurrences_skipped[of ?doc] p occ show ?thesis
    by simp
qed

section \<open>The concrete run\<close>

lemma parse_sample: "parse sample_document = Inr sample_parsed"
  by code_simp

lemma transform_sample_any_rt:
  assumes "float_of_str rt ''1'' = Some (Finite 1)"
    and "int_of_str rt ''1'' = Some 1"
    and "float_mul rt (Finite 1) (Finite 1) = Finite 1"
    and "float_round2 rt (Finite 1) = Finite 1"
    and "float_add rt (Finite 0) (Finite 1) = Finite 1"
  shows "transform rt sample_parsed = Inr sample_payload"
  using assms
  by (simp add: transform_def transform_body_def sample_parsed_def sample_payload_def
      dict_get_def new_ERPVendor_def new_ERPShipTo_def refused_def the_str_def the_opt_def
      transform_line_item_def float_field_def int_field_def py_float_def py_int_def
      new_ERPLineItem_def calculate_total_amount_def py_sum_def sum_step_def py_round2_def
      as_float_def map_po_type_def PO_TYPE_MAP_def build_reference_numbers_def format_date_def
      new_ERPPurchaseOrder_def)

lemma transform_sample: "transform sample_rt sample_parsed = Inr sample_payload"
  by (rule transform_sample_any_rt) (simp_all add: sample_rt_def)

lemma validate_sample: "validate_payload sample_payload = None"
  by code_simp

section \<open>Totals of the mapped order\<close>

lemma transform_line_item_total:
  assumes "transform_line_item rt po1 = Inr item"
  shows "total_price item = float_round2 rt (float_mul rt (li_quantity item) (li_unit_price item))"
  using assms
  by (auto simp: transform_line_item_def new_ERPLineItem_def Let_def split: sum.splits if_splits)

lemma transform_line_items_total:
  assumes "transform_line_items rt po1_items = Inr items"
  shows "\<forall>item \<in> set items.
           total_price item = float_round2 rt (float_mul rt (li_quantity item) (li_unit_price item))"
  using assms
proof (induction po1_items arbitrary: items)
  case Nil
  then show ?case by simp
next
  case (Cons po1 rest)
  then show ?case
    by (auto split: sum.splits dest: transform_line_item_total)
qed

lemma transform_line_items_length:
  "transform_line_items rt po1_items = Inr items \<Longrightarrow> length items = length po1_items"
  by (induction po1_items arbitrary: items) (auto split: sum.splits)

lemma transform_Inr: "transform rt d = Inr p \<Longrightarrow> transform_body rt d = Inr p"
  by (auto simp: transform_def split: sum.splits)

lemma transform_body_fields:
  assumes "transform_body rt d = Inr p"
  shows "transform_line_items rt (d_po1_line_items d) = Inr (line_items p)"
    and "total_amount p = as_float (calculate_total_amount rt (line_items p))"
    and "total_lines p = int (length (line_items p))"
    and "extract_vendor rt (d_n1_loops d) = Inr (vendor p)"
  using assms
  by (auto simp: transform_body_def new_ERPPurchaseOrder_def Let_def split: sum.splits if_splits)

lemma transform_ignores_ctt:
  "transform rt (d\<lparr> d_ctt_segment := ctt \<rparr>) = transform rt d"
proof -
  have same: "d_n1_loops (d\<lparr> d_ctt_segment := ctt \<rparr>) = d_n1_loops d"
    "d_po1_line_items (d\<lparr> d_ctt_segment := ctt \<rparr>) = d_po1_line_items d"
    "d_beg_segment (d\<lparr> d_ctt_segment := ctt \<rparr>) = d_beg_segment d"
    "d_ref_segments (d\<lparr> d_ctt_segment := ctt \<rparr>) = d_ref_segments d"
    by simp_all
  show ?thesis
    unfolding transform_def transform_body_def same by (rule refl)
qed

text \<open>
  Claim C1. Whenever the mapper returns a payload, every line item's \<open>total_price\<close> is
  \<open>round(quantity * unit_price, 2)\<close>, \<open>total_amount\<close> is \<open>round(sum(total_price), 2)\<close> over
  the mapped line items, \<open>total_lines\<close> is the length of the mapped list, which has one
  item for each line item of the document, and the payload stays the same whatever the
  CTT segment of the document holds.
\<close>

theorem transform_totals_computed:
  assumes "transform rt parsed_edi = Inr p"
  shows "(\<forall>item \<in> set (line_items p).
            total_price item = float_round2 rt (float_mul rt (li_quantity item) (li_unit_price item)))
       \<and> total_amount p = as_float (py_round2 rt (py_sum rt (map total_price (line_items p))))
       \<and> total_lines p = int (length (line_items p))
       \<and> length (line_items p) = length (d_po1_line_items parsed_edi)
       \<and> transform rt (parsed_edi\<lparr> d_ctt_segment := ctt \<rparr>) = Inr p"
proof -
  have body: "transform_body rt parsed_edi = Inr p"
    using assms by (rule transform_Inr)
  note f = transform_body_fields[OF body]
  show ?thesis
    using f(1) f(2) f(3) assms
    by (simp add: transform_line_items_total transform_line_items_length
        calculate_total_amount_def transform_ignores_ctt)
qed

theorem transform_totals_computed_witness:
  "transform sample_rt sample_parsed = Inr sample_payload
   \<and> map total_price (line_items sample_payload)
       = map (\<lambda>item. float_round2 sample_rt
                       (float_mul sample_rt (li_quantity item) (li_unit_price item)))
           (line_items sample_payload)
   \<and> total_amount sample_payload
       = as_float (py_round2 sample_rt (py_sum sample_rt (map total_price (line_items sample_payload))))
   \<and> total_lines sample_payload = int (length (line_items sample_payload))
   \<and> transform sample_rt (sample_parsed\<lparr> d_ctt_segment := [(''line_item_count'', PyStr ''7'')] \<rparr>)
       = Inr sample_payload"
proof -
  note h = transform_sample
  from transform_totals_computed[OF h, of "[(''line_item_count'', PyStr ''7'')]"] h
  show ?thesis by simp
qed

section \<open>The total-amount rule\<close>

lemma line_item_errors_empty:
  "line_item_errors idx items = [] \<longleftrightarrow>
     (\<forall>item \<in> set items. \<not> float_le (li_quantity item) (Finite 0)
        \<and> \<not> float_lt (li_unit_price item) (Finite 0)
        \<and> \<not> float_lt (total_price item) (Finite 0))"
  by (induction items arbitrary: idx) auto

text \<open>
  Claim C5, as the code has it. For every payload whose \<open>total_amount\<close> is 0 the list of
  violations starts with the violation of the total-amount rule, and this is the only
  violation exactly when the payload passes the checks of rules 2 to 7.
\<close>

theorem zero_total_violation:
  assumes "total_amount p = Finite 0"
  shows "(\<exists>others. validate_business_rules p = ''Total amount must be greater than zero'' # others)
       \<and> (validate_business_rules p = [''Total amount must be greater than zero'']
            \<longleftrightarrow> rules_2_to_7 p)"
  using assms
  by (auto simp: validate_business_rules_def rules_2_to_7_def line_item_errors_empty)

theorem zero_total_violation_witness:
  "total_amount (sample_payload\<lparr> total_amount := Finite 0 \<rparr>) = Finite 0
   \<and> rules_2_to_7 (sample_payload\<lparr> total_amount := Finite 0 \<rparr>)
   \<and> validate_business_rules (sample_payload\<lparr> total_amount := Finite 0 \<rparr>)
       = [''Total amount must be greater than zero'']"
proof -
  have h: "total_amount (sample_payload\<lparr> total_amount := Finite 0 \<rparr>) = Finite 0"
    by simp
  have r: "rules_2_to_7 (sample_payload\<lparr> total_amount := Finite 0 \<rparr>)"
    by (simp add: rules_2_to_7_def sample_payload_def strip_def is_space_def)
  from zero_total_violation[OF h] r h show ?thesis
    by simp
qed

text \<open>
  The claim as it is written fails on the order without line items, which the mapper
  produces for a document without PO1 segments: its total is 0 and it has two violations.
\<close>

theorem zero_total_two_violations:
  "transform sample_rt (sample_parsed\<lparr> d_po1_line_items := [] \<rparr>)
     = Inr \<lparr> po_number = ''PO9'', po_date = ''2024-01-15'', po_type = ''New Order'',
             vendor = \<lparr> vendor_id = ''V1'', vendor_name = ''Acme'' \<rparr>,
             ship_to = \<lparr> location_id = Some ''S1'', location_name = ''Dock'' \<rparr>,
             line_items = [], total_amount = Finite 0, total_lines = 0,
             reference_numbers = None \<rparr>
   \<and> validate_business_rules
       \<lparr> po_number = ''PO9'', po_date = ''2024-01-15'', po_type = ''New Order'',
         vendor = \<lparr> vendor_id = ''V1'', vendor_name = ''Acme'' \<rparr>,
         ship_to = \<lparr> location_id = Some ''S1'', location_name = ''Dock'' \<rparr>,
         line_items = [], total_amount = Finite 0, total_lines = 0, reference_numbers = None \<rparr>
     = [''Total amount must be greater than zero'',
        ''Purchase order must contain at least one line item'']"
proof
  show "transform sample_rt (sample_parsed\<lparr> d_po1_line_items := [] \<rparr>)
     = Inr \<lparr> po_number = ''PO9'', po_date = ''2024-01-15'', po_type = ''New Order'',
             vendor = \<lparr> vendor_id = ''V1'', vendor_name = ''Acme'' \<rparr>,
             ship_to = \<lparr> location_id = Some ''S1'', location_name = ''Dock'' \<rparr>,
             line_items = [], total_amount = Finite 0, total_lines = 0,
             reference_numbers = None \<rparr>"
    by code_simp
  show "validate_business_rules
       \<lparr> po_number = ''PO9'', po_date = ''2024-01-15'', po_type = ''New Order'',
         vendor = \<lparr> vendor_id = ''V1'', vendor_name = ''Acme'' \<rparr>,
         ship_to = \<lparr> location_id = Some ''S1'', location_name = ''Dock'' \<rparr>,
         line_items = [], total_amount = Finite 0, total_lines = 0, reference_numbers = None \<rparr>
     = [''Total amount must be greater than zero'',
        ''Purchase order must contain at least one line item'']"
    by (simp add: validate_business_rules_def strip_def is_space_def)
qed

section \<open>The vendor\<close>

lemma extract_vendor_none:
  "\<forall>n1 \<in> set loops. dict_get n1 ''entity_identifier'' PyNone \<noteq> PyStr ''VN'' \<Longrightarrow>
   extract_vendor rt loops = Inr \<lparr> vendor_id = ''UNKNOWN'', vendor_name = ''Unknown Vendor'' \<rparr>"
  by (induction loops) auto

lemma extract_vendor_first:
  "\<forall>n1 \<in> set pre. dict_get n1 ''entity_identifier'' PyNone \<noteq> PyStr ''VN'' \<Longrightarrow>
   dict_get n ''entity_identifier'' PyNone = PyStr ''VN'' \<Longrightarrow>
   extract_vendor rt (pre @ n # post)
     = new_ERPVendor rt (dict_get n ''identification_code'' (PyStr ''UNKNOWN''))
         (dict_get n ''name'' (PyStr ''Unknown Vendor''))"
  by (induction pre) auto

lemma dump_n1_get:
  "dict_get (dump_n1 n) ''entity_identifier'' dflt = PyStr (entity_identifier n)"
  "dict_get (dump_n1 n) ''name'' dflt = PyStr (name n)"
  "dict_get (dump_n1 n) ''identification_code'' dflt = dump_opt (identification_code n)"
  by (simp_all add: dump_n1_def dict_get_def)

lemma new_ERPVendor_str:
  "new_ERPVendor rt (PyStr a) (PyStr b) = Inr \<lparr> vendor_id = a, vendor_name = b \<rparr>"
  by (simp add: new_ERPVendor_def refused_def the_str_def)

lemma new_ERPVendor_no_id:
  "new_ERPVendor rt PyNone (PyStr b)
     = Inl (ValidationError (error_text rt (InvalidModel ''ERPVendor'' [''vendor_id''])))"
  by (simp add: new_ERPVendor_def refused_def validation_error_def)

lemma extract_vendor_dumped:
  assumes "\<forall>l \<in> set before. entity_identifier l \<noteq> ''VN''" "entity_identifier m = ''VN''"
  shows "extract_vendor rt (map dump_n1 (before @ m # after))
     = new_ERPVendor rt (dump_opt (identification_code m)) (PyStr (name m))"
proof -
  have "extract_vendor rt (map dump_n1 before @ dump_n1 m # map dump_n1 after)
     = new_ERPVendor rt (dict_get (dump_n1 m) ''identification_code'' (PyStr ''UNKNOWN''))
         (dict_get (dump_n1 m) ''name'' (PyStr ''Unknown Vendor''))"
    by (rule extract_vendor_first) (use assms in \<open>auto simp: dump_n1_get\<close>)
  then show ?thesis by (simp add: dump_n1_get)
qed

lemma transform_vendor:
  assumes "transform rt d = Inr p"
  shows "extract_vendor rt (d_n1_loops d) = Inr (vendor p)"
  using assms
  by (auto simp: transform_def transform_body_def new_ERPPurchaseOrder_def Let_def
      split: sum.splits if_splits)

text \<open>
  Claim C6. Without a loop whose entity identifier is \<open>VN\<close> the vendor is the sentinel
  (\<open>UNKNOWN\<close>, \<open>Unknown Vendor\<close>) and its extraction does not fail. Otherwise the vendor is
  built from the first such loop alone, whatever comes before or after it; for a loop of a
  parsed document that carries an identification code the vendor has this code and the
  name of the loop. The vendor of a mapped payload is the one extracted so.
\<close>

theorem vendor_from_first_VN_loop:
  "((\<forall>n1 \<in> set loops. dict_get n1 ''entity_identifier'' PyNone \<noteq> PyStr ''VN'') \<longrightarrow>
      extract_vendor rt loops = Inr \<lparr> vendor_id = ''UNKNOWN'', vendor_name = ''Unknown Vendor'' \<rparr>)
   \<and> ((\<forall>n1 \<in> set pre. dict_get n1 ''entity_identifier'' PyNone \<noteq> PyStr ''VN'')
        \<and> dict_get n ''entity_identifier'' PyNone = PyStr ''VN'' \<longrightarrow>
      extract_vendor rt (pre @ n # post)
        = new_ERPVendor rt (dict_get n ''identification_code'' (PyStr ''UNKNOWN''))
            (dict_get n ''name'' (PyStr ''Unknown Vendor'')))
   \<and> ((\<forall>l \<in> set before. entity_identifier l \<noteq> ''VN'') \<and> entity_identifier m = ''VN''
        \<and> identification_code m = Some vid \<longrightarrow>
      extract_vendor rt (map dump_n1 (before @ m # after))
        = Inr \<lparr> vendor_id = vid, vendor_name = name m \<rparr>)
   \<and> (transform rt d = Inr p \<longrightarrow> extract_vendor rt (d_n1_loops d) = Inr (vendor p))"
  using extract_vendor_none[of loops rt] extract_vendor_first[of pre n rt post]
    extract_vendor_dumped[of before m rt after] transform_vendor[of rt d p]
  by (auto simp: dump_opt_def new_ERPVendor_str)

theorem vendor_from_first_VN_loop_witness:
  "extract_vendor sample_rt [[(''entity_identifier'', PyStr ''ST''), (''name'', PyStr ''Dock'')]]
     = Inr \<lparr> vendor_id = ''UNKNOWN'', vendor_name = ''Unknown Vendor'' \<rparr>
   \<and> extract_vendor sample_rt
        (map dump_n1
          ([\<lparr> entity_identifier = ''ST'', name = ''Dock'', identification_code_qualifier = None,
              identification_code = None \<rparr>]
           @ \<lparr> entity_identifier = ''VN'', name = ''Acme'', identification_code_qualifier = Some ''92'',
               identification_code = Some ''V1'' \<rparr>
           # [\<lparr> entity_identifier = ''VN'', name = ''Other'', identification_code_qualifier = None,
                identification_code = Some ''V2'' \<rparr>]))
     = Inr \<lparr> vendor_id = ''V1'', vendor_name = ''Acme'' \<rparr>
   \<and> extract_vendor sample_rt (d_n1_loops sample_parsed) = Inr (vendor sample_payload)"
proof -
  let ?st = "[(''entity_identifier'', PyStr ''ST''), (''name'', PyStr ''Dock'')]"
  let ?b = "\<lparr> entity_identifier = ''ST'', name = ''Dock'', identification_code_qualifier = None,
              identification_code = None \<rparr>"
  let ?m = "\<lparr> entity_identifier = ''VN'', name = ''Acme'', identification_code_qualifier = Some ''92'',
               identification_code = Some ''V1'' \<rparr>"
  let ?a = "\<lparr> entity_identifier = ''VN'', name = ''Other'', identification_code_qualifier = None,
                identification_code = Some ''V2'' \<rparr>"
  have h1: "\<forall>n1 \<in> set [?st]. dict_get n1 ''entity_identifier'' PyNone \<noteq> PyStr ''VN''"
    by (simp add: dict_get_def)
  have h3: "(\<forall>l \<in> set [?b]. entity_identifier l \<noteq> ''VN'') \<and> entity_identifier ?m = ''VN''
        \<and> identification_code ?m = Some ''V1''"
    by simp
  from vendor_from_first_VN_loop[of "[?st]" sample_rt "[]" "dump_n1 ?m" "[]" "[?b]" ?m "''V1''" "[?a]"
      sample_parsed sample_payload]
    h1 h3 transform_sample
  show ?thesis by simp
qed

lemma transform_vendor_fails:
  assumes "extract_vendor rt (d_n1_loops d) = Inl e"
  shows "transform rt d = Inl (TransformationError (''Failed to transform EDI to ERP schema: '' @ str_exc e))"
  using assms by (simp add: transform_def transform_body_def)

text \<open>
  Claim C9. When the first \<open>VN\<close> loop of a parsed document has no identification code
  (as the loop of an N1 segment with three elements has), the lookup
  \<open>n1.get("identification_code", "UNKNOWN")\<close> gives \<open>None\<close>, since the key is there;
  pydantic refuses it for \<open>vendor_id\<close>, and the mapper raises a \<open>TransformationError\<close>
  that carries the text of the validation error.
\<close>

theorem vendor_without_id_fails:
  assumes "\<forall>l \<in> set before. entity_identifier l \<noteq> ''VN''"
    and "entity_identifier n = ''VN''"
    and "identification_code n = None"
    and "d_n1_loops d = map dump_n1 (before @ n # after)"
  shows "dict_get (dump_n1 n) ''identification_code'' (PyStr ''UNKNOWN'') = PyNone
       \<and> extract_vendor rt (d_n1_loops d)
           = Inl (ValidationError (error_text rt (InvalidModel ''ERPVendor'' [''vendor_id''])))
       \<and> transform rt d
           = Inl (TransformationError (''Failed to transform EDI to ERP schema: ''
                    @ error_text rt (InvalidModel ''ERPVendor'' [''vendor_id''])))
       \<and> (\<forall>seg. length seg = 3 \<longrightarrow>
             map identification_code (n1_loop [seg]) = [None])"
proof -
  have ev: "extract_vendor rt (d_n1_loops d)
           = Inl (ValidationError (error_text rt (InvalidModel ''ERPVendor'' [''vendor_id''])))"
    using extract_vendor_dumped[OF assms(1,2), of rt after] assms(3,4)
    by (simp add: dump_opt_def new_ERPVendor_no_id)
  show ?thesis
    using ev transform_vendor_fails[OF ev] assms(3)
    by (simp add: dump_n1_get dump_opt_def)
qed

theorem vendor_without_id_fails_witness:
  "parse (''ISA*a*b*c*d*e*f*g*h*i*j*k*l*m*n*o*p~GS*PO*s*r*d*t*1*X*v~BEG*00*NE*PO9**20240115~''
          @ ''N1*VN*Acme~N1*ST*Dock*92*S1~PO1*1*1*EA*1**VP~CTT*1~'')
     = Inr (sample_parsed\<lparr> d_n1_loops :=
              map dump_n1
                ([] @ \<lparr> entity_identifier = ''VN'', name = ''Acme'',
                        identification_code_qualifier = None, identification_code = None \<rparr>
                 # [\<lparr> entity_identifier = ''ST'', name = ''Dock'',
                      identification_code_qualifier = Some ''92'',
                      identification_code = Some ''S1'' \<rparr>]) \<rparr>)
   \<and> transform sample_rt
        (sample_parsed\<lparr> d_n1_loops :=
              map dump_n1
                ([] @ \<lparr> entity_identifier = ''VN'', name = ''Acme'',
                        identification_code_qualifier = None, identification_code = None \<rparr>
                 # [\<lparr> entity_identifier = ''ST'', name = ''Dock'',
                      identification_code_qualifier = Some ''92'',
                      identification_code = Some ''S1'' \<rparr>]) \<rparr>)
     = Inl (TransformationError ''Failed to transform EDI to ERP schema: error'')"
proof -
  let ?n = "\<lparr> entity_identifier = ''VN'', name = ''Acme'',
             identification_code_qualifier = None, identification_code = None \<rparr>"
  let ?st = "\<lparr> entity_identifier = ''ST'', name = ''Dock'',
              identification_code_qualifier = Some ''92'', identification_code = Some ''S1'' \<rparr>"
  let ?d = "sample_parsed\<lparr> d_n1_loops := map dump_n1 ([] @ ?n # [?st]) \<rparr>"
  have p: "parse (''ISA*a*b*c*d*e*f*g*h*i*j*k*l*m*n*o*p~GS*PO*s*r*d*t*1*X*v~BEG*00*NE*PO9**20240115~''
          @ ''N1*VN*Acme~N1*ST*Dock*92*S1~PO1*1*1*EA*1**VP~CTT*1~'') = Inr ?d"
    by code_simp
  have h: "\<forall>l \<in> set ([]::N1Loop list). entity_identifier l \<noteq> ''VN''"
    "entity_identifier ?n = ''VN''" "identification_code ?n = None"
    "d_n1_loops ?d = map dump_n1 ([] @ ?n # [?st])"
    by simp_all
  from vendor_without_id_fails[OF h, of sample_rt] p show ?thesis
    by (simp add: sample_rt_def)
qed

section \<open>The empty SKU\<close>

lemma po1_seven:
  "length po1 = 7 \<Longrightarrow>
   po1_loop [po1] = [\<lparr> line_number = strip (po1 ! 1), quantity = strip (po1 ! 2),
       unit_of_measure = strip (po1 ! 3), unit_price = strip (po1 ! 4),
       product_id_qualifier = strip (po1 ! 6), product_id = [], description = None \<rparr>]"
  by simp

lemma transform_line_item_sku:
  assumes "transform_line_item rt po1 = Inr item"
  shows "PyStr (sku item) = dict_get po1 ''product_id'' (PyStr [])"
  using assms
  by (auto simp: transform_line_item_def new_ERPLineItem_def Let_def refused_def the_str_def
      split: sum.splits if_splits pyval.splits)

lemma dump_po1_product_id: "dict_get (dump_po1 l) ''product_id'' dflt = PyStr (product_id l)"
  by (simp add: dump_po1_def dict_get_def)

lemma line_item_errors_sku:
  "line_item_errors idx (map (\<lambda>item. item\<lparr> sku := f item \<rparr>) items) = line_item_errors idx items"
  by (induction items arbitrary: idx) auto

lemma validate_ignores_sku:
  "validate_business_rules (p\<lparr> line_items := map (\<lambda>item. item\<lparr> sku := f item \<rparr>) (line_items p) \<rparr>)
     = validate_business_rules p"
  by (simp add: validate_business_rules_def line_item_errors_sku)

section \<open>The retry loop and the execution record\<close>

lemma geometric_shift:
  "[delay] @ map (\<lambda>i. delay * 2 * 2 ^ i) [0..<n] = map (\<lambda>i. (delay::rat) * 2 ^ i) [0..<Suc n]"
proof -
  have "map (\<lambda>i. delay * 2 ^ i) [0..<Suc n] = delay * 2 ^ 0 # map (\<lambda>i. delay * 2 ^ Suc i) [0..<n]"
    by (simp only: map_upt_Suc)
  then show ?thesis by simp
qed

lemma retry_loop_frame:
  assumes "retry_loop rt self post p attempts_left lerr delay st = (st', le, out)"
  shows "parse_status st' = parse_status st \<and> parse_data st' = parse_data st
       \<and> parse_error st' = parse_error st
       \<and> transform_status st' = transform_status st \<and> transform_data st' = transform_data st
       \<and> validate_status st' = validate_status st \<and> post_status st' = post_status st
       \<and> success st' = success st
       \<and> (\<forall>e. out = Some (Inl e) \<longrightarrow> e = ValueError (error_text rt NegativeSleep))"
  using assms
proof (induction attempts_left arbitrary: lerr delay st)
  case Nil
  then show ?case by simp
next
  case (Cons attempt rest)
  show ?case
  proof (cases "post attempt p")
    case (Inr r)
    then show ?thesis using Cons.prems by (auto simp: Let_def)
  next
    case (Inl e)
    show ?thesis
    proof (cases "attempt < max_retries self")
      case False
      then have "retry_loop rt self post p rest (Some e) delay (st\<lparr> post_attempts := attempt \<rparr>)
                 = (st', le, out)"
        using Cons.prems Inl by (simp add: Let_def)
      from Cons.IH[OF this] show ?thesis by simp
    next
      case True
      show ?thesis
      proof (cases "delay < 0")
        case neg: True
        then show ?thesis using Cons.prems Inl True by (auto simp: Let_def py_sleep_def)
      next
        case False
        then have "retry_loop rt self post p rest (Some e) (delay * 2)
                     (st\<lparr> post_attempts := attempt, slept := slept st @ [delay] \<rparr>)
                 = (st', le, out)"
          using Cons.prems Inl True by (simp add: Let_def py_sleep_def)
        from Cons.IH[OF this] show ?thesis by simp
      qed
    qed
  qed
qed

lemma retry_loop_inv:
  assumes "a \<le> max_retries self"
    and "retry_loop rt self post p [a..max_retries self] lerr delay st = (st', le, out)"
  shows "a \<le> post_attempts st' \<and> post_attempts st' \<le> max_retries self
       \<and> slept st' = slept st @ map (\<lambda>i. delay * 2 ^ i) [0..<nat (post_attempts st' - a)]"
  using assms
proof (induction "nat (max_retries self - a)" arbitrary: a lerr delay st)
  case 0
  then have a: "a = max_retries self" by simp
  have l: "[a..max_retries self] = [a]" using a by simp
  show ?case using "0.prems"(2) unfolding l
    by (auto simp: a Let_def split: sum.splits)
next
  case (Suc n)
  then have lt: "a < max_retries self" by simp
  have l: "[a..max_retries self] = a # [a + 1..max_retries self]"
    using lt by (simp add: upto_rec1)
  show ?case
  proof (cases "post a p")
    case (Inr r)
    then show ?thesis using Suc.prems(2) lt unfolding l by (auto simp: Let_def)
  next
    case (Inl e)
    show ?thesis
    proof (cases "delay < 0")
      case True
      then show ?thesis using Suc.prems(2) lt Inl unfolding l
        by (auto simp: Let_def py_sleep_def)
    next
      case False
      let ?st1 = "st\<lparr> post_attempts := a, slept := slept st @ [delay] \<rparr>"
      have rec: "retry_loop rt self post p [a + 1..max_retries self] (Some e) (delay * 2) ?st1
                 = (st', le, out)"
        using Suc.prems(2) lt Inl False unfolding l by (simp add: Let_def py_sleep_def)
      have n: "n = nat (max_retries self - (a + 1))" using Suc.hyps(2) by simp
      have le1: "a + 1 \<le> max_retries self" using lt by simp
      from Suc.hyps(1)[OF n le1 rec]
      have ih: "a + 1 \<le> post_attempts st'" "post_attempts st' \<le> max_retries self"
        "slept st' = slept ?st1 @ map (\<lambda>i. delay * 2 * 2 ^ i) [0..<nat (post_attempts st' - (a + 1))]"
        by auto
      have "nat (post_attempts st' - a) = Suc (nat (post_attempts st' - (a + 1)))"
        using ih(1) by simp
      then show ?thesis using ih geometric_shift[of delay "nat (post_attempts st' - (a + 1))"]
        by simp
    qed
  qed
qed



text \<open>The state in which the submit stage starts.\<close>

lemma try_body_submit:
  assumes "parse s = Inr d" "transform rt d = Inr p" "validate_payload p = None"
  shows "try_body rt self post s initial_state
     = (case post_to_erp_with_retry rt self post p
               (initial_state\<lparr> parse_status := Success, parse_data := Some d,
                  transform_status := Success, transform_data := Some p,
                  validate_status := Success, validate_errors := None \<rparr>) of
          (st4, Inl e) \<Rightarrow> (st4, Some e)
        | (st4, Inr erp_response) \<Rightarrow>
            (st4\<lparr> post_status := Success, post_data := Some erp_response,
                   success := True, final_result := Some (ErpResponse erp_response) \<rparr>,
             None))"
  using assms by (simp add: try_body_def Let_def)








lemma parse_error_class:
  "parse s = Inl e \<Longrightarrow> \<exists>m. e = EDIParsingError m"
  by (auto simp: parse_def parse_segments_def split: sum.splits)

lemma process_parse_failure:
  assumes "parse s = Inl e"
  shows "process_edi_file rt self post s
           = initial_state\<lparr> parse_status := Failed, parse_error := Some (str_exc e) \<rparr>"
proof -
  obtain m where e: "e = EDIParsingError m"
    using parse_error_class[OF assms] by blast
  have "try_body rt self post s initial_state = (initial_state, Some e)"
    using assms by (simp add: try_body_def)
  then show ?thesis
    by (simp add: e process_edi_file_def handle_exception_def)
qed

lemma process_reaches_submit:
  assumes "parse s = Inr d" "transform rt d = Inr p" "validate_payload p = None"
    and "1 \<le> max_retries self"
  shows "parse_status (process_edi_file rt self post s) = Success
       \<and> transform_data (process_edi_file rt self post s) = Some p
       \<and> validate_status (process_edi_file rt self post s) = Success
       \<and> 1 \<le> post_attempts (process_edi_file rt self post s)"
proof -
  let ?st3 = "(initial_state :: 'a run_state)\<lparr> parse_status := Success, parse_data := Some d,
          transform_status := Success, transform_data := Some p,
          validate_status := Success, validate_errors := None \<rparr>"
  obtain st1 le out1 where loop:
    "retry_loop rt self post p [1..max_retries self] None (retry_delay self) ?st3 = (st1, le, out1)"
    by (metis prod_cases3)
  note inv = retry_loop_inv[OF assms(4) loop]
  note frame = retry_loop_frame[OF loop]
  show ?thesis
  proof (cases out1)
    case None
    then have "try_body rt self post s initial_state
       = (st1\<lparr> post_status := Failed, post_error := Some (''All '' @ str_int (max_retries self)
                 @ '' retry attempts failed. Last error: '' @ str_last_error le) \<rparr>,
          Some (PyException (''All '' @ str_int (max_retries self)
                 @ '' retry attempts failed. Last error: '' @ str_last_error le)))"
      unfolding try_body_submit[OF assms(1,2,3)] using loop
      by (simp add: Let_def post_to_erp_with_retry_def)
    then show ?thesis using inv frame
      by (simp add: process_edi_file_def handle_exception_def mark_pending_failed_def)
  next
    case (Some outcome)
    show ?thesis
    proof (cases outcome)
      case (Inr r)
      then have "try_body rt self post s initial_state
         = (st1\<lparr> post_status := Success, post_data := Some r, success := True,
               final_result := Some (ErpResponse r) \<rparr>, None)"
        unfolding try_body_submit[OF assms(1,2,3)] using loop Some
        by (simp add: post_to_erp_with_retry_def)
      then show ?thesis using inv frame by (simp add: process_edi_file_def)
    next
      case (Inl e)
      then have e: "e = ValueError (error_text rt NegativeSleep)"
        using frame Some by simp
      have "try_body rt self post s initial_state = (st1, Some e)"
        unfolding try_body_submit[OF assms(1,2,3)] using loop Some Inl
        by (simp add: post_to_erp_with_retry_def)
      then show ?thesis using inv frame
        by (simp add: e process_edi_file_def handle_exception_def mark_pending_failed_def
            initial_state_def)
    qed
  qed
qed





text \<open>
  Claim C7. The parser fails with an \<open>EDIParsingError\<close> only. When it fails, the
  execution record is the initial one with the parse step failed and holding the text of
  the error: the transform, validate and submit steps are still pending and the run is
  not a success.
\<close>

theorem parse_failure_leaves_rest_pending:
  assumes "parse s = Inl e"
  shows "e = EDIParsingError (str_exc e)
       \<and> process_edi_file rt self post s
           = initial_state\<lparr> parse_status := Failed, parse_error := Some (str_exc e) \<rparr>
       \<and> parse_status (process_edi_file rt self post s) = Failed
       \<and> parse_error (process_edi_file rt self post s) = Some (str_exc e)
       \<and> transform_status (process_edi_file rt self post s) = Pending
       \<and> validate_status (process_edi_file rt self post s) = Pending
       \<and> post_status (process_edi_file rt self post s) = Pending
       \<and> \<not> success (process_edi_file rt self post s)"
proof -
  obtain m where "e = EDIParsingError m"
    using parse_error_class[OF assms] by blast
  then have "e = EDIParsingError (str_exc e)" by simp
  then show ?thesis
    by (simp add: process_parse_failure[OF assms] initial_state_def)
qed

theorem parse_failure_leaves_rest_pending_witness:
  "parse ''GS*PO~BEG*00'' = Inl (EDIParsingError ''Failed to parse EDI 850: ISA segment not found or incomplete'')
   \<and> parse_status (process_edi_file sample_rt \<lparr> max_retries = 3, retry_delay = 2 \<rparr>
        (\<lambda>k p. Inr ''accepted'' :: pyexc + string) ''GS*PO~BEG*00'') = Failed
   \<and> parse_error (process_edi_file sample_rt \<lparr> max_retries = 3, retry_delay = 2 \<rparr>
        (\<lambda>k p. Inr ''accepted'' :: pyexc + string) ''GS*PO~BEG*00'')
       = Some ''Failed to parse EDI 850: ISA segment not found or incomplete''
   \<and> transform_status (process_edi_file sample_rt \<lparr> max_retries = 3, retry_delay = 2 \<rparr>
        (\<lambda>k p. Inr ''accepted'' :: pyexc + string) ''GS*PO~BEG*00'') = Pending
   \<and> validate_status (process_edi_file sample_rt \<lparr> max_retries = 3, retry_delay = 2 \<rparr>
        (\<lambda>k p. Inr ''accepted'' :: pyexc + string) ''GS*PO~BEG*00'') = Pending
   \<and> post_status (process_edi_file sample_rt \<lparr> max_retries = 3, retry_delay = 2 \<rparr>
        (\<lambda>k p. Inr ''accepted'' :: pyexc + string) ''GS*PO~BEG*00'') = Pending
   \<and> \<not> success (process_edi_file sample_rt \<lparr> max_retries = 3, retry_delay = 2 \<rparr>
        (\<lambda>k p. Inr ''accepted'' :: pyexc + string) ''GS*PO~BEG*00'')"
proof -
  have h: "parse ''GS*PO~BEG*00''
     = Inl (EDIParsingError ''Failed to parse EDI 850: ISA segment not found or incomplete'')"
    by code_simp
  let ?st = "process_edi_file sample_rt \<lparr> max_retries = 3, retry_delay = 2 \<rparr>
        (\<lambda>k p. Inr ''accepted'' :: pyexc + string) ''GS*PO~BEG*00''"
  from parse_failure_leaves_rest_pending[OF h, of sample_rt "\<lparr> max_retries = 3, retry_delay = 2 \<rparr>"
      "\<lambda>k p. Inr ''accepted'' :: pyexc + string"]
  have "parse_status ?st = Failed
      \<and> parse_error ?st
          = Some (str_exc (EDIParsingError
                    ''Failed to parse EDI 850: ISA segment not found or incomplete''))
      \<and> transform_status ?st = Pending \<and> validate_status ?st = Pending
      \<and> post_status ?st = Pending \<and> \<not> success ?st"
    by blast
  then show ?thesis using h by simp
qed

text \<open>
  Claim C10. A PO1 segment with exactly seven elements gives a line item whose product
  id is the empty string. The mapper copies the product id of a parsed line item into the
  SKU. The validator does not look at the SKU: emptying every SKU of a payload leaves its
  violations as they are. The sample document has such a segment; on every runtime that
  reads and multiplies the number 1 as Python does, and with at least one attempt
  configured, its run parses, maps to the sample payload, whose SKU is empty, passes
  validation and makes a submission attempt.
\<close>

theorem empty_sku_reaches_submit:
  "(length po1 = 7 \<longrightarrow> map product_id (po1_loop [po1]) = [[]])
   \<and> (transform_line_item rt (dump_po1 item) = Inr li \<longrightarrow> sku li = product_id item)
   \<and> validate_business_rules (p\<lparr> line_items := map (\<lambda>i. i\<lparr> sku := [] \<rparr>) (line_items p) \<rparr>)
       = validate_business_rules p
   \<and> occurrences (split_segments sample_document) ''PO1'' 7
       = [[''PO1'', ''1'', ''1'', ''EA'', ''1'', [], ''VP'']]
   \<and> map sku (line_items sample_payload) = [[]]
   \<and> (float_of_str rt ''1'' = Some (Finite 1) \<and> int_of_str rt ''1'' = Some 1
        \<and> float_mul rt (Finite 1) (Finite 1) = Finite 1
        \<and> float_round2 rt (Finite 1) = Finite 1
        \<and> float_add rt (Finite 0) (Finite 1) = Finite 1
        \<and> 1 \<le> max_retries self \<longrightarrow>
          parse_status (process_edi_file rt self post sample_document) = Success
        \<and> transform_data (process_edi_file rt self post sample_document) = Some sample_payload
        \<and> validate_status (process_edi_file rt self post sample_document) = Success
        \<and> 1 \<le> post_attempts (process_edi_file rt self post sample_document))"
proof (intro conjI impI)
  show "map product_id (po1_loop [po1]) = [[]]" if "length po1 = 7"
    using po1_seven[OF that] by simp
  show "sku li = product_id item" if "transform_line_item rt (dump_po1 item) = Inr li"
    using transform_line_item_sku[OF that] by (simp add: dump_po1_product_id)
  show "validate_business_rules (p\<lparr> line_items := map (\<lambda>i. i\<lparr> sku := [] \<rparr>) (line_items p) \<rparr>)
       = validate_business_rules p"
    by (rule validate_ignores_sku)
  show "occurrences (split_segments sample_document) ''PO1'' 7
       = [[''PO1'', ''1'', ''1'', ''EA'', ''1'', [], ''VP'']]"
    by code_simp
  show "map sku (line_items sample_payload) = [[]]"
    by (simp add: sample_payload_def)
  assume h: "float_of_str rt ''1'' = Some (Finite 1) \<and> int_of_str rt ''1'' = Some 1
        \<and> float_mul rt (Finite 1) (Finite 1) = Finite 1
        \<and> float_round2 rt (Finite 1) = Finite 1
        \<and> float_add rt (Finite 0) (Finite 1) = Finite 1
        \<and> 1 \<le> max_retries self"
  then have t: "transform rt sample_parsed = Inr sample_payload"
    by (intro transform_sample_any_rt) auto
  from h have m: "1 \<le> max_retries self" by simp
  note r = process_reaches_submit[OF parse_sample t validate_sample m, of post]
  from r show "parse_status (process_edi_file rt self post sample_document) = Success"
    and "transform_data (process_edi_file rt self post sample_document) = Some sample_payload"
    and "validate_status (process_edi_file rt self post sample_document) = Success"
    and "1 \<le> post_attempts (process_edi_file rt self post sample_document)"
    by simp_all
qed

theorem empty_sku_reaches_submit_witness:
  "map product_id (po1_loop [[''PO1'', ''1'', ''1'', ''EA'', ''1'', [], ''VP'']]) = [[]]
   \<and> transform_line_item sample_rt (hd (d_po1_line_items sample_parsed))
       = Inr (hd (line_items sample_payload))
   \<and> sku (hd (line_items sample_payload)) = []
   \<and> validate_status (process_edi_file sample_rt \<lparr> max_retries = 1, retry_delay = 2 \<rparr>
        (\<lambda>k p. Inr ''accepted'' :: pyexc + string) sample_document) = Success
   \<and> 1 \<le> post_attempts (process_edi_file sample_rt \<lparr> max_retries = 1, retry_delay = 2 \<rparr>
        (\<lambda>k p. Inr ''accepted'' :: pyexc + string) sample_document)"
proof -
  let ?po1 = "[''PO1'', ''1'', ''1'', ''EA'', ''1'', [], ''VP'']"
  let ?item = "\<lparr> line_number = ''1'', quantity = ''1'', unit_of_measure = ''EA'',
      unit_price = ''1'', product_id_qualifier = ''VP'', product_id = [], description = None \<rparr>"
  let ?self = "\<lparr> max_retries = 1, retry_delay = 2 \<rparr>"
  have len: "length ?po1 = 7" by simp
  have item: "hd (d_po1_line_items sample_parsed) = dump_po1 ?item"
    by (simp add: sample_parsed_def dump_po1_def dump_opt_def)
  have li: "transform_line_item sample_rt (dump_po1 ?item) = Inr (hd (line_items sample_payload))"
    by code_simp
  have rt: "float_of_str sample_rt ''1'' = Some (Finite 1) \<and> int_of_str sample_rt ''1'' = Some 1
        \<and> float_mul sample_rt (Finite 1) (Finite 1) = Finite 1
        \<and> float_round2 sample_rt (Finite 1) = Finite 1
        \<and> float_add sample_rt (Finite 0) (Finite 1) = Finite 1
        \<and> 1 \<le> max_retries ?self"
    by (simp add: sample_rt_def)
  from empty_sku_reaches_submit[of ?po1 sample_rt ?item "hd (line_items sample_payload)"
      sample_payload ?self "\<lambda>k p. Inr ''accepted'' :: pyexc + string"] len li rt item
  show ?thesis by simp
qed

end
